theory Spec2Isabelle
  imports Main "HOL-Library.Word"
begin

section \<open>Data model of the BFD daemon (bfd.c)\<close>

text \<open>
  The header bfd.h is not among the sources. Field widths follow the way bfd.c uses the
  fields: discriminators and advertised intervals are 32-bit (they travel in 4-byte wire
  fields), working timeouts are 64-bit (\<open>uint64_t jitter, xmt_TO\<close> in
  \<open>ptm_bfd_start_xmt_timer\<close>), multipliers, diagnostics and the polling marks are one
  byte. Nested C structs are flattened: \<open>discrs.my_discr\<close> is \<open>my_discr\<close>,
  \<open>timers.required_min_rx\<close> is \<open>timers_required_min_rx\<close>, \<open>sla.jitter\<close> is
  \<open>sla_jitter\<close>, and so on.
\<close>

type_synonym u8 = "8 word"
type_synonym u16 = "16 word"
type_synonym u32 = "32 word"
type_synonym u64 = "64 word"

text \<open>Session pointers (\<open>bfd_session *\<close>) and label pointers are addresses in a store.\<close>

type_synonym sess_ptr = nat
type_synonym label_ptr = nat

text \<open>
  \<open>struct sockaddr_any\<close> is a union of \<open>sockaddr_in\<close> and \<open>sockaddr_in6\<close>: both start
  with the 2-byte family and the 2-byte port, so \<open>sa_sin.sin_port\<close> and
  \<open>sa_sin6.sin6_port\<close> are the same two bytes. \<open>sa_data\<close> holds the remaining bytes of
  the union: bytes 0..3 are \<open>sin_addr\<close> (and \<open>sin6_flowinfo\<close>), bytes 4..19 are
  \<open>sin6_addr\<close>. A \<open>memcmp\<close> over the whole union is equality of the record.
\<close>

record sockaddr_any =
  sa_family :: u16
  sa_port :: u16
  sa_data :: "u8 list"

definition AF_INET :: u16 where "AF_INET = 2"
definition AF_INET6 :: u16 where "AF_INET6 = 10"

record bfd_shop_key =
  shop_peer :: sockaddr_any
  shop_port_name :: string

record bfd_mhop_key =
  mhop_peer :: sockaddr_any
  mhop_local :: sockaddr_any
  mhop_vrf_name :: string

text \<open>The four protocol states, in the order of \<open>state_list\<close> (values 0, 1, 2, 3).\<close>

datatype bfd_state = PTM_BFD_ADM_DOWN | PTM_BFD_DOWN | PTM_BFD_INIT | PTM_BFD_UP

text \<open>
  \<open>bs->flags\<close> is a bit field; \<open>BFD_SET_FLAG\<close>, \<open>BFD_UNSET_FLAG\<close> and
  \<open>BFD_CHECK_FLAG\<close> set, clear and test one bit. The bit positions are in bfd.h; the
  model keeps the set of flags that are on.
\<close>

datatype bfd_flag =
    BFD_SESS_FLAG_ECHO
  | BFD_SESS_FLAG_ECHO_ACTIVE
  | BFD_SESS_FLAG_MH
  | BFD_SESS_FLAG_VXLAN
  | BFD_SESS_FLAG_SHUTDOWN
  | BFD_SESS_FLAG_IPV6
  | BFD_SESS_FLAG_TRACK_SLA

definition BFD_SET_FLAG :: "bfd_flag set \<Rightarrow> bfd_flag \<Rightarrow> bfd_flag set" where
  "BFD_SET_FLAG fl f = insert f fl"

definition BFD_UNSET_FLAG :: "bfd_flag set \<Rightarrow> bfd_flag \<Rightarrow> bfd_flag set" where
  "BFD_UNSET_FLAG fl f = fl - {f}"

definition BFD_CHECK_FLAG :: "bfd_flag set \<Rightarrow> bfd_flag \<Rightarrow> bool" where
  "BFD_CHECK_FLAG fl f = (f \<in> fl)"

text \<open>\<open>struct timeval\<close>: seconds and microseconds, both C \<open>long\<close>.\<close>

record timeval =
  tv_sec :: int
  tv_usec :: int

text \<open>
  \<open>bfd_session\<close>. The four libevent timers embedded in the struct are fields of the
  record: \<open>None\<close> is a timer that is not pending, \<open>Some t\<close> one that is armed to fire
  after \<open>t\<close> microseconds.
\<close>

record bfd_session =
  my_discr :: u32
  remote_discr :: u32
  ses_state :: bfd_state
  local_diag :: u8
  remote_diag :: u8
  polling :: u8
  demand_mode :: u8
  flags :: "bfd_flag set"
  detect_mult :: u8
  remote_detect_mult :: u8
  mh_ttl :: u8
  up_min_tx :: u32
  timers_desired_min_tx :: u32
  timers_required_min_rx :: u32
  timers_required_min_echo :: u32
  new_timers_desired_min_tx :: u32
  new_timers_required_min_rx :: u32
  xmt_TO :: u64
  detect_TO :: u64
  echo_xmt_TO :: u64
  echo_detect_TO :: u64
  uptime :: timeval
  downtime :: timeval
  xmit_tv :: timeval
  sock :: int
  shop :: bfd_shop_key
  mhop :: bfd_mhop_key
  local_ip :: sockaddr_any
  ifindex :: int
  local_mac :: "u8 list"
  peer_mac :: "u8 list"
  pl :: "label_ptr option"
  refcount :: int
  stats_rx_ctrl_pkt :: u64
  stats_tx_ctrl_pkt :: u64
  stats_rx_echo_pkt :: u64
  stats_tx_echo_pkt :: u64
  sla_lattency :: u32
  sla_jitter :: u32
  sla_old_lat :: u32
  sla_pkts_lost :: u32
  recvtimer_ev :: "u64 option"
  echo_recvtimer_ev :: "u64 option"
  xmttimer_ev :: "u64 option"
  echo_xmttimer_ev :: "u64 option"

text \<open>\<open>struct bfd_peer_cfg\<close>, the configuration request the JSON parser fills.\<close>

record bfd_peer_cfg =
  bpc_ipv4 :: bool
  bpc_peer :: sockaddr_any
  bpc_local :: sockaddr_any
  bpc_has_label :: bool
  bpc_label :: string
  bpc_has_localif :: bool
  bpc_localif :: string
  bpc_has_vrfname :: bool
  bpc_vrfname :: string
  bpc_mhop :: bool
  bpc_has_vxlan :: bool
  bpc_has_discr :: bool
  bpc_discr :: u32
  bpc_has_detectmultiplier :: bool
  bpc_detectmultiplier :: u8
  bpc_has_recvinterval :: bool
  bpc_recvinterval :: u64
  bpc_has_txinterval :: bool
  bpc_txinterval :: u64
  bpc_has_echointerval :: bool
  bpc_echointerval :: u64
  bpc_createonly :: bool
  bpc_shutdown :: bool
  bpc_echo :: bool
  bpc_track_sla :: bool

text \<open>
  Calls that leave bfd.c: packet output (\<open>ptm_bfd_snd\<close>, \<open>ptm_bfd_echo_snd\<close>) and the
  control socket's notifications. Each call is recorded as an event in call order;
  \<open>control_notify\<close> is recorded with the protocol state the session has at the call.
\<close>

datatype event =
    Call_ptm_bfd_snd int
  | Call_ptm_bfd_echo_snd
  | Call_control_notify bfd_state
  | Call_control_notify_config string
  | Call_control_notify_sla u32 u32

text \<open>
  What the operating system hands to one run of a function: the value of \<open>random()\<close>
  (a \<open>long\<close> between 0 and \<open>2^31 - 1\<close>), of \<open>gettimeofday\<close> and of \<open>get_monotime\<close>.
\<close>

record env =
  env_random :: nat
  env_gettimeofday :: timeval
  env_get_monotime :: timeval

section \<open>Constants of bfd.h\<close>

text \<open>
  Modelled from the spec: the diagnostic codes and defaults of bfd.h, which is not among
  the sources. The spec names the diagnostics (DetectTime, NeighDown, AdminDown; RFC 5880
  numbers them 1, 3, 7), the default detect multiplier 3, the slow-start interval of one
  second in microseconds and the packet-loss window of 100 packets. The other defaults
  are those of the upstream header; no theorem below depends on their values.
\<close>

definition BFD_DIAGDETECTTIME :: u8 where "BFD_DIAGDETECTTIME = 1"
definition BFD_DIAGNEIGHDOWN :: u8 where "BFD_DIAGNEIGHDOWN = 3"
definition BFD_DIAGADMINDOWN :: u8 where "BFD_DIAGADMINDOWN = 7"

definition BFD_DEFDETECTMULT :: u8 where "BFD_DEFDETECTMULT = 3"
definition BFD_DEF_SLOWTX :: u64 where "BFD_DEF_SLOWTX = 1000000"
definition BFD_DEFDESIREDMINTX :: u32 where "BFD_DEFDESIREDMINTX = 300000"
definition BFD_DEFREQUIREDMINRX :: u32 where "BFD_DEFREQUIREDMINRX = 300000"
definition BFD_DEF_REQ_MIN_ECHO :: u32 where "BFD_DEF_REQ_MIN_ECHO = 50000"
definition BFD_DEF_MHOP_TTL :: u8 where "BFD_DEF_MHOP_TTL = 5"
definition PKTS_TO_CONSIDER_FOR_PKT_LOSS :: u32 where "PKTS_TO_CONSIDER_FOR_PKT_LOSS = 100"

section \<open>The timer layer\<close>

text \<open>
  Modelled from the spec: the timer engine (event.c is not among the sources). Per
  session there are four logical timers: control-xmit, control-detect, echo-xmit and
  echo-detect. An update arms or re-arms its timer, the detect timers with the session's
  detection timeouts and the transmit timers with the interval passed; a delete cancels
  it, and cancelling twice is cancelling once.
\<close>

definition bfd_recvtimer_update :: "bfd_session \<Rightarrow> bfd_session" where
  "bfd_recvtimer_update bs = bs\<lparr>recvtimer_ev := Some (detect_TO bs)\<rparr>"

definition bfd_echo_recvtimer_update :: "bfd_session \<Rightarrow> bfd_session" where
  "bfd_echo_recvtimer_update bs = bs\<lparr>echo_recvtimer_ev := Some (echo_detect_TO bs)\<rparr>"

definition bfd_xmttimer_update :: "bfd_session \<Rightarrow> u64 \<Rightarrow> bfd_session" where
  "bfd_xmttimer_update bs jitter = bs\<lparr>xmttimer_ev := Some jitter\<rparr>"

definition bfd_echo_xmttimer_update :: "bfd_session \<Rightarrow> u64 \<Rightarrow> bfd_session" where
  "bfd_echo_xmttimer_update bs jitter = bs\<lparr>echo_xmttimer_ev := Some jitter\<rparr>"

definition bfd_recvtimer_delete :: "bfd_session \<Rightarrow> bfd_session" where
  "bfd_recvtimer_delete bs = bs\<lparr>recvtimer_ev := None\<rparr>"

definition bfd_echo_recvtimer_delete :: "bfd_session \<Rightarrow> bfd_session" where
  "bfd_echo_recvtimer_delete bs = bs\<lparr>echo_recvtimer_ev := None\<rparr>"

definition bfd_xmttimer_delete :: "bfd_session \<Rightarrow> bfd_session" where
  "bfd_xmttimer_delete bs = bs\<lparr>xmttimer_ev := None\<rparr>"

definition bfd_echo_xmttimer_delete :: "bfd_session \<Rightarrow> bfd_session" where
  "bfd_echo_xmttimer_delete bs = bs\<lparr>echo_xmttimer_ev := None\<rparr>"

section \<open>Discriminator allocator\<close>

text \<open>
  \<open>ptm_bfd_gen_ID\<close> returns the static counter \<open>sessionID\<close> and increments it
  (\<open>return (sessionID++)\<close>, on \<open>uint32_t\<close>). The counter is passed in and returned with
  the result; it starts at 1.
\<close>

definition sessionID_init :: u32 where
  "sessionID_init = 1"

definition ptm_bfd_gen_ID :: "u32 \<Rightarrow> u32 \<times> u32" where
  "ptm_bfd_gen_ID sessionID = (sessionID, sessionID + 1)"

text \<open>The values of \<open>n\<close> successive calls, first call first, and the counter left behind.\<close>

fun gen_ID_calls :: "nat \<Rightarrow> u32 \<Rightarrow> u32 list \<times> u32" where
  "gen_ID_calls 0 sessionID = ([], sessionID)"
| "gen_ID_calls (Suc n) sessionID =
     (let (r, sessionID') = ptm_bfd_gen_ID sessionID;
          (rs, sessionID'') = gen_ID_calls n sessionID'
      in (r # rs, sessionID''))"

text \<open>The value the \<open>n\<close>-th call of a process run returns (calls are counted from 1).\<close>

definition gen_ID_nth :: "nat \<Rightarrow> u32" where
  "gen_ID_nth n = fst (gen_ID_calls n sessionID_init) ! (n - 1)"

section \<open>Transmit timers and jitter\<close>

text \<open>
  \<open>ptm_bfd_start_xmt_timer\<close>. \<open>random() % maxpercent\<close> is computed on non-negative
  \<open>long\<close>s; the product with \<open>xmt_TO\<close> and the division by 100 are \<open>uint64_t\<close>
  arithmetic.
\<close>

definition ptm_bfd_start_xmt_timer :: "env \<Rightarrow> bfd_session \<Rightarrow> bool \<Rightarrow> bfd_session" where
  "ptm_bfd_start_xmt_timer e bfd is_echo =
     (let xmt_TO' = (if is_echo then echo_xmt_TO bfd else xmt_TO bfd);
          maxpercent = (if detect_mult bfd = 1 then 16 else 26);
          jitter = (xmt_TO' * of_nat (75 + env_random e mod maxpercent)) div 100
      in if is_echo then bfd_echo_xmttimer_update bfd jitter
         else bfd_xmttimer_update bfd jitter)"

definition ptm_bfd_echo_xmt_TO :: "env \<Rightarrow> bfd_session \<Rightarrow> bfd_session \<times> event list" where
  "ptm_bfd_echo_xmt_TO e bfd =
     (let bfd = bfd\<lparr>xmit_tv := env_gettimeofday e\<rparr>
      in (ptm_bfd_start_xmt_timer e bfd True, [Call_ptm_bfd_echo_snd]))"

definition ptm_bfd_xmt_TO :: "env \<Rightarrow> bfd_session \<Rightarrow> int \<Rightarrow> bfd_session \<times> event list" where
  "ptm_bfd_xmt_TO e bfd fbit =
     (let bfd = bfd\<lparr>xmit_tv := env_gettimeofday e\<rparr>
      in (ptm_bfd_start_xmt_timer e bfd False, [Call_ptm_bfd_snd fbit]))"

section \<open>Echo start and stop, session up and down\<close>

definition ptm_bfd_echo_stop :: "bfd_session \<Rightarrow> u8 \<Rightarrow> bfd_session \<times> event list" where
  "ptm_bfd_echo_stop bfd polling' =
     (let bfd = bfd\<lparr>echo_xmt_TO := 0, echo_detect_TO := 0,
                     flags := BFD_UNSET_FLAG (flags bfd) BFD_SESS_FLAG_ECHO_ACTIVE\<rparr>;
          bfd = bfd_echo_xmttimer_delete bfd;
          bfd = bfd_echo_recvtimer_delete bfd
      in if polling' \<noteq> 0
         then (bfd\<lparr>polling := polling',
                    new_timers_desired_min_tx := up_min_tx bfd,
                    new_timers_required_min_rx := timers_required_min_rx bfd\<rparr>,
               [Call_ptm_bfd_snd 0])
         else (bfd, []))"

definition ptm_bfd_echo_start :: "env \<Rightarrow> bfd_session \<Rightarrow> bfd_session \<times> event list" where
  "ptm_bfd_echo_start e bfd =
     (let bfd = bfd\<lparr>echo_detect_TO := ucast (remote_detect_mult bfd) * echo_xmt_TO bfd\<rparr>;
          (bfd, ev1) = ptm_bfd_echo_xmt_TO e bfd;
          bfd = bfd\<lparr>polling := 1,
                     new_timers_desired_min_tx := up_min_tx bfd,
                     new_timers_required_min_rx := timers_required_min_rx bfd\<rparr>
      in (bfd, ev1 @ [Call_ptm_bfd_snd 0]))"

definition ptm_bfd_ses_up :: "env \<Rightarrow> bfd_session \<Rightarrow> bfd_session \<times> event list" where
  "ptm_bfd_ses_up e bfd =
     (let bfd = bfd\<lparr>local_diag := 0, ses_state := PTM_BFD_UP, polling := 1,
                     uptime := env_get_monotime e\<rparr>;
          (bfd, ev1) =
            (if echo_xmt_TO bfd \<noteq> 0 \<and> \<not> BFD_CHECK_FLAG (flags bfd) BFD_SESS_FLAG_MH
             then ptm_bfd_echo_start e bfd
             else (bfd\<lparr>new_timers_desired_min_tx := up_min_tx bfd,
                        new_timers_required_min_rx := timers_required_min_rx bfd\<rparr>,
                   [Call_ptm_bfd_snd 0]))
      in (bfd, ev1 @ [Call_control_notify (ses_state bfd)]))"

definition ptm_bfd_ses_dn :: "env \<Rightarrow> bfd_session \<Rightarrow> u8 \<Rightarrow> bfd_session \<times> event list" where
  "ptm_bfd_ses_dn e bfd diag =
     (let old_state = ses_state bfd;
          bfd = bfd\<lparr>local_diag := diag, remote_discr := 0, ses_state := PTM_BFD_DOWN,
                     polling := 0, demand_mode := 0, downtime := env_get_monotime e\<rparr>;
          ev1 = [Call_ptm_bfd_snd 0];
          ev2 = (if old_state = PTM_BFD_UP then [Call_control_notify (ses_state bfd)] else []);
          (bfd, ev3) =
            (if BFD_CHECK_FLAG (flags bfd) BFD_SESS_FLAG_ECHO_ACTIVE
             then ptm_bfd_echo_stop bfd 0
             else (bfd, []))
      in (bfd, ev1 @ ev2 @ ev3))"

text \<open>
  \<open>bfd_recvtimer_cb\<close>, the detection timer's callback (was \<open>ptm_bfd_detect_TO\<close>);
  \<open>bfd_echo_recvtimer_cb\<close> is the echo detection timer's.
\<close>

definition bfd_recvtimer_cb :: "env \<Rightarrow> bfd_session \<Rightarrow> bfd_session \<times> event list" where
  "bfd_recvtimer_cb e bs =
     (case ses_state bs of
        PTM_BFD_INIT \<Rightarrow>
          (let (bs, ev) = ptm_bfd_ses_dn e bs BFD_DIAGDETECTTIME
           in (bfd_recvtimer_update bs, ev))
      | PTM_BFD_UP \<Rightarrow>
          (let (bs, ev) = ptm_bfd_ses_dn e bs BFD_DIAGDETECTTIME
           in (bfd_recvtimer_update bs, ev))
      | _ \<Rightarrow> (bs\<lparr>remote_discr := 0\<rparr>, []))"

definition bfd_echo_recvtimer_cb :: "env \<Rightarrow> bfd_session \<Rightarrow> bfd_session \<times> event list" where
  "bfd_echo_recvtimer_cb e bs =
     (case ses_state bs of
        PTM_BFD_INIT \<Rightarrow> ptm_bfd_ses_dn e bs BFD_DIAGDETECTTIME
      | PTM_BFD_UP \<Rightarrow> ptm_bfd_ses_dn e bs BFD_DIAGDETECTTIME
      | _ \<Rightarrow> (bs, []))"

section \<open>Process-wide state\<close>

text \<open>Ways a run of the C code stops without returning.\<close>

datatype trap = DivideByZero | BadPointer

text \<open>\<open>struct peer_label\<close>: a label and the session it names.\<close>

record peer_label =
  pl_label :: string
  pl_bs :: sess_ptr

text \<open>
  The globals of bfd.c and bfd_config.c, and the two stores their pointers point into:
  \<open>sessions\<close> holds the allocated \<open>bfd_session\<close> structs, \<open>labels\<close> the allocated
  \<open>peer_label\<close> structs; \<open>sessions_next\<close> and \<open>labels_next\<close> are the addresses the
  next successful \<open>calloc\<close> returns. The three uthash tables are the lists of the
  sessions linked into them, \<open>bg_pllist\<close> is the tail queue of labels (head first),
  \<open>sessionID\<close> is the static counter of \<open>ptm_bfd_gen_ID\<close>, and \<open>trace\<close> collects the
  calls that leave bfd.c, each with the session it was made for.
\<close>

record bfdd =
  sessions :: "sess_ptr \<Rightarrow> bfd_session option"
  sessions_next :: sess_ptr
  session_hash :: "sess_ptr list"
  peer_hash :: "sess_ptr list"
  local_peer_hash :: "sess_ptr list"
  labels :: "label_ptr \<Rightarrow> peer_label option"
  labels_next :: label_ptr
  bg_pllist :: "label_ptr list"
  iface_hash :: "string \<Rightarrow> int option"
  vrf_hash :: "int \<Rightarrow> string option"
  sessionID :: u32
  trace :: "(sess_ptr \<times> event) list"

text \<open>
  Modelled from the spec: the indices of the session registry (uthash.h is not among the
  sources). The tables are intrusive: an entry is the session itself, and its key is
  read from the session's own fields (\<open>discrs.my_discr\<close>, \<open>shop\<close>, \<open>mhop\<close>). A lookup
  is a pure function of the key and returns a session whose key equals it, or none.
  \<open>HASH_ADD\<close> is a statement of bfd.c with no result, so bfd.c cannot see an insert being
  refused; the model links the session in without a check, as uthash does, in front of
  the older entries.
\<close>

definition HASH_FIND ::
  "(bfd_session \<Rightarrow> 'k) \<Rightarrow> (sess_ptr \<Rightarrow> bfd_session option) \<Rightarrow> sess_ptr list \<Rightarrow> 'k \<Rightarrow> sess_ptr option"
where
  "HASH_FIND key_of heap head k =
     find (\<lambda>p. case heap p of None \<Rightarrow> False | Some bs \<Rightarrow> key_of bs = k) head"

definition HASH_ADD :: "sess_ptr list \<Rightarrow> sess_ptr \<Rightarrow> sess_ptr list" where
  "HASH_ADD head p = p # head"

text \<open>
  \<open>strxcpy dst src size\<close> (util.c is not among the sources) copies at most
  \<open>size - 1\<close> characters. \<open>MAXNAMELEN\<close> is the size of the name buffers, less one for
  the terminator.
\<close>

definition strxcpy :: "nat \<Rightarrow> string \<Rightarrow> string" where
  "strxcpy size' src = take (size' - 1) src"

definition MAXNAMELEN :: nat where
  "MAXNAMELEN = 36"

definition sockaddr_zero :: sockaddr_any where
  "sockaddr_zero = \<lparr>sa_family = 0, sa_port = 0, sa_data = replicate 24 0\<rparr>"

section \<open>Session lookup\<close>

definition bs_session_find :: "bfdd \<Rightarrow> u32 \<Rightarrow> sess_ptr option" where
  "bs_session_find st discr = HASH_FIND my_discr (sessions st) (session_hash st) discr"

text \<open>
  \<open>bfd_find_disc\<close> returns the session and leaves the caller's address with its port
  zeroed; the result is the pair of both.
\<close>

definition bfd_find_disc :: "bfdd \<Rightarrow> sockaddr_any \<Rightarrow> u32 \<Rightarrow> sess_ptr option \<times> sockaddr_any" where
  "bfd_find_disc st sa ldisc =
     (case HASH_FIND my_discr (sessions st) (session_hash st) ldisc of
        None \<Rightarrow> (None, sa)
      | Some p \<Rightarrow>
          (let sa = (if sa_family sa = AF_INET then sa\<lparr>sa_port := 0\<rparr>
                     else if sa_family sa = AF_INET6 then sa\<lparr>sa_port := 0\<rparr>
                     else sa)
           in case sessions st p of
                None \<Rightarrow> (None, sa)
              | Some bs \<Rightarrow>
                  if my_discr bs \<noteq> ldisc \<and> sa = shop_peer (shop bs) then (None, sa)
                  else (Some p, sa)))"

definition bfd_find_shop :: "bfdd \<Rightarrow> bfd_shop_key \<Rightarrow> sess_ptr option" where
  "bfd_find_shop st k =
     (let k = (if sa_family (shop_peer k) = AF_INET
               then k\<lparr>shop_peer := (shop_peer k)\<lparr>sa_port := 0\<rparr>\<rparr>
               else if sa_family (shop_peer k) = AF_INET6
               then k\<lparr>shop_peer := (shop_peer k)\<lparr>sa_port := 0\<rparr>\<rparr>
               else k)
      in case HASH_FIND shop (sessions st) (peer_hash st) k of
           Some p \<Rightarrow> Some p
         | None \<Rightarrow> HASH_FIND shop (sessions st) (peer_hash st) (k\<lparr>shop_port_name := []\<rparr>))"

definition bfd_find_mhop :: "bfdd \<Rightarrow> bfd_mhop_key \<Rightarrow> sess_ptr option" where
  "bfd_find_mhop st k =
     (let k = (if sa_family (mhop_peer k) = AF_INET
               then k\<lparr>mhop_local := (mhop_local k)\<lparr>sa_port := 0\<rparr>,
                      mhop_peer := (mhop_peer k)\<lparr>sa_port := 0\<rparr>\<rparr>
               else if sa_family (mhop_peer k) = AF_INET6
               then k\<lparr>mhop_local := (mhop_local k)\<lparr>sa_port := 0\<rparr>,
                      mhop_peer := (mhop_peer k)\<lparr>sa_port := 0\<rparr>\<rparr>
               else k)
      in HASH_FIND mhop (sessions st) (local_peer_hash st) k)"

text \<open>\<open>ptm_bfd_get_vrf_name\<close>, called with both pointers set: \<open>None\<close> is its \<open>-1\<close>.\<close>

definition ptm_bfd_get_vrf_name :: "bfdd \<Rightarrow> string \<Rightarrow> string option" where
  "ptm_bfd_get_vrf_name st port_name =
     (case iface_hash st port_name of
        None \<Rightarrow> None
      | Some vrf_id \<Rightarrow>
          (case vrf_hash st vrf_id of
             None \<Rightarrow> None
           | Some name \<Rightarrow> Some (strxcpy (MAXNAMELEN + 1) name)))"

text \<open>
  A received control packet, as far as the lookup reads it. \<open>cp_remote_discr\<close> is the
  your-discriminator the packet carries, as a number: \<open>ntohl\<close> recovers this number from
  the big-endian field, and the field is zero exactly when the number is.
  \<open>cp_state\<close> is \<open>BFD_GETSTATE(cp->flags)\<close>.
\<close>

record bfd_pkt_t =
  cp_remote_discr :: u32
  cp_state :: bfd_state

text \<open>
  \<open>ptm_bfd_sess_find\<close>. \<open>cp\<close>, \<open>port_name\<close> and \<open>vrf_name\<close> are pointers that may be
  \<open>NULL\<close>; the single-hop branches take \<open>strlen(port_name)\<close> unchecked. The log lines
  are left out.
\<close>

definition ptm_bfd_sess_find ::
  "bfdd \<Rightarrow> bfd_pkt_t option \<Rightarrow> string option \<Rightarrow> sockaddr_any \<Rightarrow> sockaddr_any \<Rightarrow>
   string option \<Rightarrow> bool \<Rightarrow> trap + sess_ptr option"
where
  "ptm_bfd_sess_find st cp port_name peer local' vrf_name is_mhop =
     (case cp of
        Some cp \<Rightarrow>
          if cp_remote_discr cp \<noteq> 0 then
            (let ldisc = cp_remote_discr cp
             in Inr (fst (bfd_find_disc st peer ldisc)))
          else if cp_state cp = PTM_BFD_DOWN \<or> cp_state cp = PTM_BFD_ADM_DOWN then
            (if is_mhop then
               (let vrf =
                  (case vrf_name of
                     Some v \<Rightarrow>
                       if v \<noteq> [] then strxcpy (MAXNAMELEN + 1) v
                       else (case port_name of
                               None \<Rightarrow> []
                             | Some pn \<Rightarrow>
                                 (case ptm_bfd_get_vrf_name st pn of
                                    None \<Rightarrow> []
                                  | Some vn \<Rightarrow> strxcpy (MAXNAMELEN + 1) vn))
                   | None \<Rightarrow>
                       (case port_name of
                          None \<Rightarrow> []
                        | Some pn \<Rightarrow>
                            (case ptm_bfd_get_vrf_name st pn of
                               None \<Rightarrow> []
                             | Some vn \<Rightarrow> strxcpy (MAXNAMELEN + 1) vn)))
                in Inr (bfd_find_mhop st
                     \<lparr>mhop_peer = peer, mhop_local = local', mhop_vrf_name = vrf\<rparr>))
             else
               (case port_name of
                  None \<Rightarrow> Inl BadPointer
                | Some pn \<Rightarrow>
                    Inr (bfd_find_shop st
                      \<lparr>shop_peer = peer,
                       shop_port_name = (if pn \<noteq> [] then strxcpy (MAXNAMELEN + 1) pn else [])\<rparr>)))
          else Inr None
      | None \<Rightarrow>
          if list_ex (\<lambda>b. b \<noteq> 0) (take 4 (sa_data peer))
             \<or> \<not> list_all (\<lambda>b. b = 0) (take 16 (drop 4 (sa_data peer)))
          then
            (if is_mhop then
               Inr (HASH_FIND mhop (sessions st) (local_peer_hash st)
                 \<lparr>mhop_peer = peer, mhop_local = local',
                  mhop_vrf_name =
                    (case vrf_name of
                       None \<Rightarrow> []
                     | Some v \<Rightarrow> if v \<noteq> [] then strxcpy (MAXNAMELEN + 1) v else [])\<rparr>)
             else
               (case port_name of
                  None \<Rightarrow> Inl BadPointer
                | Some pn \<Rightarrow>
                    Inr (HASH_FIND shop (sessions st) (peer_hash st)
                      \<lparr>shop_peer = peer,
                       shop_port_name = (if pn \<noteq> [] then strxcpy (MAXNAMELEN + 1) pn else [])\<rparr>)))
          else Inr None)"

section \<open>Labels (bfd_config.c)\<close>

text \<open>\<open>pl_find\<close> walks the tail queue and returns the first label with the name.\<close>

definition pl_find :: "bfdd \<Rightarrow> string \<Rightarrow> label_ptr option" where
  "pl_find st label =
     find (\<lambda>p. case labels st p of None \<Rightarrow> False | Some l \<Rightarrow> pl_label l = label)
       (bg_pllist st)"

text \<open>
  \<open>pl_new label bs\<close> allocates a label, points it and the session at each other and
  puts it at the head of the queue. The session is passed as its address and its
  contents; when \<open>calloc\<close> fails nothing changes.
\<close>

definition pl_new ::
  "bool \<Rightarrow> bfdd \<Rightarrow> string \<Rightarrow> sess_ptr \<Rightarrow> bfd_session \<Rightarrow> bfd_session \<times> bfdd"
where
  "pl_new calloc_ok st label bs_ptr bs =
     (if \<not> calloc_ok then (bs, st)
      else
        (let p = labels_next st;
             l = \<lparr>pl_label = strxcpy (MAXNAMELEN + 1) label, pl_bs = bs_ptr\<rparr>
         in (bs\<lparr>pl := Some p\<rparr>,
             st\<lparr>labels := (labels st)(p \<mapsto> l),
                labels_next := Suc p,
                bg_pllist := p # bg_pllist st\<rparr>)))"

section \<open>Session creation and update\<close>

text \<open>
  \<open>bfd_session_new\<close>: \<open>calloc\<close> hands out a struct of zero bytes (state 0 is
  \<open>PTM_BFD_ADM_DOWN\<close>, no flag set, no timer pending), in which the defaults are set.
\<close>

definition calloc_bfd_session :: bfd_session where
  "calloc_bfd_session =
     \<lparr>my_discr = 0, remote_discr = 0, ses_state = PTM_BFD_ADM_DOWN, local_diag = 0,
      remote_diag = 0, polling = 0, demand_mode = 0, flags = {}, detect_mult = 0,
      remote_detect_mult = 0, mh_ttl = 0, up_min_tx = 0, timers_desired_min_tx = 0,
      timers_required_min_rx = 0, timers_required_min_echo = 0,
      new_timers_desired_min_tx = 0, new_timers_required_min_rx = 0, xmt_TO = 0,
      detect_TO = 0, echo_xmt_TO = 0, echo_detect_TO = 0,
      uptime = \<lparr>tv_sec = 0, tv_usec = 0\<rparr>, downtime = \<lparr>tv_sec = 0, tv_usec = 0\<rparr>,
      xmit_tv = \<lparr>tv_sec = 0, tv_usec = 0\<rparr>, sock = 0,
      shop = \<lparr>shop_peer = sockaddr_zero, shop_port_name = []\<rparr>,
      mhop = \<lparr>mhop_peer = sockaddr_zero, mhop_local = sockaddr_zero, mhop_vrf_name = []\<rparr>,
      local_ip = sockaddr_zero, ifindex = 0, local_mac = replicate 6 0,
      peer_mac = replicate 6 0, pl = None, refcount = 0, stats_rx_ctrl_pkt = 0,
      stats_tx_ctrl_pkt = 0, stats_rx_echo_pkt = 0, stats_tx_echo_pkt = 0,
      sla_lattency = 0, sla_jitter = 0, sla_old_lat = 0, sla_pkts_lost = 0,
      recvtimer_ev = None, echo_recvtimer_ev = None, xmttimer_ev = None,
      echo_xmttimer_ev = None\<rparr>"

definition bfd_session_new :: "bool \<Rightarrow> timeval \<Rightarrow> int \<Rightarrow> bfd_session option" where
  "bfd_session_new calloc_ok monotime sd =
     (if \<not> calloc_ok then None
      else Some (calloc_bfd_session
        \<lparr>up_min_tx := BFD_DEFDESIREDMINTX,
         timers_required_min_rx := BFD_DEFREQUIREDMINRX,
         timers_required_min_echo := BFD_DEF_REQ_MIN_ECHO,
         detect_mult := BFD_DEFDETECTMULT,
         mh_ttl := BFD_DEF_MHOP_TTL,
         sock := sd,
         uptime := monotime,
         downtime := monotime\<rparr>))"

text \<open>
  \<open>_bfd_session_update\<close> (a name Isabelle does not take: here
  \<open>static_bfd_session_update\<close>) runs four blocks one after the other; each block is a
  definition of its own, in the order of the source.

  First block (the \<open>bpc_echo\<close> test): echo mode on or off.
\<close>

definition session_update_echo ::
  "env \<Rightarrow> bfd_session \<Rightarrow> bfd_peer_cfg \<Rightarrow> bfd_session \<times> event list"
where
  "session_update_echo e bs bpc =
     (if bpc_echo bpc then
        (let bs = bs\<lparr>flags := BFD_SET_FLAG (flags bs) BFD_SESS_FLAG_ECHO\<rparr>;
             (bs, ev) = ptm_bfd_echo_start e bs
         in (bfd_echo_recvtimer_update bs, ev))
      else
        (let bs = bs\<lparr>flags := BFD_UNSET_FLAG (flags bs) BFD_SESS_FLAG_ECHO\<rparr>
         in ptm_bfd_echo_stop bs 0))"

text \<open>
  Second block: the track-sla flag, the three intervals (given in milliseconds, stored in
  microseconds in 32-bit fields) and the detect multiplier.
\<close>

definition session_update_params :: "bfd_session \<Rightarrow> bfd_peer_cfg \<Rightarrow> bfd_session" where
  "session_update_params bs bpc =
     (let bs = (if bpc_track_sla bpc
                then bs\<lparr>flags := BFD_SET_FLAG (flags bs) BFD_SESS_FLAG_TRACK_SLA\<rparr>
                else bs\<lparr>flags := BFD_UNSET_FLAG (flags bs) BFD_SESS_FLAG_TRACK_SLA\<rparr>);
          bs = (if bpc_has_txinterval bpc
                then bs\<lparr>up_min_tx := ucast (bpc_txinterval bpc * 1000)\<rparr> else bs);
          bs = (if bpc_has_recvinterval bpc
                then bs\<lparr>timers_required_min_rx := ucast (bpc_recvinterval bpc * 1000)\<rparr>
                else bs);
          bs = (if bpc_has_detectmultiplier bpc
                then bs\<lparr>detect_mult := bpc_detectmultiplier bpc\<rparr> else bs);
          bs = (if bpc_has_echointerval bpc
                then bs\<lparr>timers_required_min_echo := ucast (bpc_echointerval bpc * 1000)\<rparr>
                else bs)
      in bs)"

text \<open>
  Third block (\<open>bpc_has_label\<close>): install a new label or rename the session's label,
  unless the name is taken. A label pointer that is set points to an allocated label
  (\<open>pl_new\<close> and \<open>pl_free\<close>, the only writers of \<open>bs->pl\<close>, keep it so); for any other
  pointer the model leaves the state as it is.
\<close>

definition session_update_label ::
  "bool \<Rightarrow> bfdd \<Rightarrow> sess_ptr \<Rightarrow> bfd_session \<Rightarrow> bfd_peer_cfg \<Rightarrow> bfd_session \<times> bfdd"
where
  "session_update_label calloc_ok st bs_ptr bs bpc =
     (if bpc_has_label bpc then
        (case pl bs of
           None \<Rightarrow>
             if pl_find st (bpc_label bpc) \<noteq> None then (bs, st)
             else pl_new calloc_ok st (bpc_label bpc) bs_ptr bs
         | Some p \<Rightarrow>
             (case labels st p of
                None \<Rightarrow> (bs, st)
              | Some l \<Rightarrow>
                  if bpc_label bpc = pl_label l then (bs, st)
                  else if pl_find st (bpc_label bpc) \<noteq> None then (bs, st)
                  else (bs, st\<lparr>labels := (labels st)
                          (p \<mapsto> l\<lparr>pl_label := strxcpy (MAXNAMELEN + 1) (bpc_label bpc)\<rparr>)\<rparr>)))
      else (bs, st))"

text \<open>Fourth block (\<open>bpc_shutdown\<close>): administrative shutdown, or its absence.\<close>

definition session_update_shutdown ::
  "bfd_session \<Rightarrow> bfd_peer_cfg \<Rightarrow> bfd_session \<times> event list"
where
  "session_update_shutdown bs bpc =
     (if bpc_shutdown bpc then
        (let bs = bs\<lparr>flags := BFD_SET_FLAG (flags bs) BFD_SESS_FLAG_SHUTDOWN\<rparr>;
             bs = bfd_recvtimer_delete bs;
             bs = bfd_echo_recvtimer_delete bs;
             bs = bfd_xmttimer_delete bs;
             bs = bfd_echo_xmttimer_delete bs;
             bs = bs\<lparr>ses_state := PTM_BFD_ADM_DOWN\<rparr>
         in (bs, [Call_control_notify (ses_state bs), Call_ptm_bfd_snd 0]))
      else
        (let bs = bs\<lparr>flags := BFD_UNSET_FLAG (flags bs) BFD_SESS_FLAG_SHUTDOWN\<rparr>;
             bs = bs\<lparr>ses_state := PTM_BFD_DOWN\<rparr>;
             ev = [Call_control_notify (ses_state bs)];
             bs = bfd_recvtimer_update bs;
             bs = bfd_echo_recvtimer_update bs;
             bs = bfd_xmttimer_update bs (xmt_TO bs);
             bs = (if BFD_CHECK_FLAG (flags bs) BFD_SESS_FLAG_ECHO
                   then bfd_echo_xmttimer_update bs (echo_xmt_TO bs) else bs)
         in (bs, ev)))"

text \<open>
  The whole of \<open>_bfd_session_update(bs, bpc)\<close>: the session is passed as its address
  \<open>bs_ptr\<close> and its contents \<open>bs\<close>; the result is the session's new contents, the
  process state (only the labels change) and the calls made. \<open>calloc_ok\<close> says whether
  the \<open>calloc\<close> of \<open>pl_new\<close> succeeds.
\<close>

definition static_bfd_session_update ::
  "env \<Rightarrow> bool \<Rightarrow> bfdd \<Rightarrow> sess_ptr \<Rightarrow> bfd_session \<Rightarrow> bfd_peer_cfg \<Rightarrow>
   bfd_session \<times> bfdd \<times> event list"
where
  "static_bfd_session_update e calloc_ok st bs_ptr bs bpc =
     (let (bs, ev1) = session_update_echo e bs bpc;
          bs = session_update_params bs bpc;
          (bs, st) = session_update_label calloc_ok st bs_ptr bs bpc;
          (bs, ev2) = session_update_shutdown bs bpc
      in (bs, st, ev1 @ ev2))"

definition BCM_NOTIFY_CONFIG_ADD :: string where "BCM_NOTIFY_CONFIG_ADD = ''add''"
definition BCM_NOTIFY_CONFIG_UPDATE :: string where "BCM_NOTIFY_CONFIG_UPDATE = ''update''"

text \<open>Writing a session's contents back to its address, with the calls made for it.\<close>

definition store_session :: "bfdd \<Rightarrow> sess_ptr \<Rightarrow> bfd_session \<Rightarrow> event list \<Rightarrow> bfdd" where
  "store_session st bs_ptr bs ev =
     st\<lparr>sessions := (sessions st)(bs_ptr \<mapsto> bs), trace := trace st @ map (Pair bs_ptr) ev\<rparr>"

text \<open>
  \<open>bfd_session_update\<close> returns \<open>-1\<close> for a create-only request and \<open>0\<close> after an
  update. A pointer that is not the address of a session cannot be followed.
\<close>

definition bfd_session_update ::
  "env \<Rightarrow> bool \<Rightarrow> bfdd \<Rightarrow> sess_ptr \<Rightarrow> bfd_peer_cfg \<Rightarrow> trap + (int \<times> bfdd)"
where
  "bfd_session_update e calloc_ok st bs_ptr bpc =
     (if bpc_createonly bpc then Inr (- 1, st)
      else
        (case sessions st bs_ptr of
           None \<Rightarrow> Inl BadPointer
         | Some bs \<Rightarrow>
             (let (bs, st, ev) = static_bfd_session_update e calloc_ok st bs_ptr bs bpc
              in Inr (0, store_session st bs_ptr bs
                           (ev @ [Call_control_notify_config BCM_NOTIFY_CONFIG_UPDATE])))))"

text \<open>
  What the operating system hands to one run of \<open>ptm_bfd_sess_new\<close>: the socket
  \<open>bp_peer_socket\<close> or \<open>bp_peer_socketv6\<close> returns (\<open>-1\<close> on failure), whether the two
  \<open>calloc\<close>s succeed, the interface index and MAC address the \<open>ioctl\<close>s give (no MAC when
  the \<open>ioctl\<close> fails), the clock at \<open>bfd_session_new\<close>, and the random numbers and
  clocks for the update and for the first transmission.
\<close>

record sys_new =
  sys_psock :: int
  sys_calloc_session :: bool
  sys_calloc_label :: bool
  sys_ifindex :: int
  sys_local_mac :: "u8 list option"
  sys_monotime :: timeval
  sys_env_update :: env
  sys_env_xmt :: env

text \<open>
  \<open>ptm_bfd_sess_new\<close> in its two parts. The first part looks for a session the
  request names already, by label and then by the address key
  (up to the mark \<open>skip_address_lookup\<close>).
\<close>

definition ptm_bfd_sess_new_lookup :: "bfdd \<Rightarrow> bfd_peer_cfg \<Rightarrow> sess_ptr option" where
  "ptm_bfd_sess_new_lookup st bpc =
     (case (if bpc_has_label bpc then pl_find st (bpc_label bpc) else None) of
        Some lp \<Rightarrow> map_option pl_bs (labels st lp)
      | None \<Rightarrow>
          if bpc_mhop bpc then
            bfd_find_mhop st
              \<lparr>mhop_peer = bpc_peer bpc, mhop_local = bpc_local bpc,
               mhop_vrf_name =
                 (if bpc_has_vrfname bpc
                  then strxcpy (MAXNAMELEN + 1) (bpc_vrfname bpc) else [])\<rparr>
          else
            bfd_find_shop st
              \<lparr>shop_peer = bpc_peer bpc,
               shop_port_name =
                 (if \<not> bpc_has_vxlan bpc \<and> bpc_has_localif bpc
                  then strxcpy (MAXNAMELEN + 1) (bpc_localif bpc) else [])\<rparr>)"

text \<open>
  The second part runs when no session was found: socket, memory, the session's fields,
  its discriminator, the two indices, the first update and the first transmission. What
  it writes into the new session is given by two definitions. \<open>sess_new_init\<close> is the
  stretch from the interface lookup to the first arming of the detection timer:
  \<open>discr\<close> is the discriminator chosen, the caller-supplied one or the allocator's.
\<close>

definition sess_new_init :: "sys_new \<Rightarrow> bfd_peer_cfg \<Rightarrow> u32 \<Rightarrow> bfd_session \<Rightarrow> bfd_session" where
  "sess_new_init sys bpc discr bfd =
     (let bfd = (if bpc_has_localif bpc \<and> \<not> bpc_mhop bpc
                 then bfd\<lparr>ifindex := sys_ifindex sys,
                          local_mac := (case sys_local_mac sys of
                                          None \<Rightarrow> local_mac bfd
                                        | Some m \<Rightarrow> m)\<rparr>
                 else bfd);
          bfd = (if bpc_has_vxlan bpc
                 then bfd\<lparr>flags := BFD_SET_FLAG (flags bfd) BFD_SESS_FLAG_VXLAN\<rparr>
                 else bfd);
          bfd = (if bpc_ipv4 bpc = False
                 then bfd\<lparr>flags := BFD_SET_FLAG (flags bfd) BFD_SESS_FLAG_IPV6\<rparr>
                 else bfd);
          bfd = bfd\<lparr>my_discr := discr\<rparr>;
          bfd = bfd\<lparr>ses_state := PTM_BFD_DOWN, remote_discr := 0,
                     local_ip := bpc_local bpc,
                     timers_desired_min_tx := up_min_tx bfd,
                     detect_TO := ucast (detect_mult bfd) * BFD_DEF_SLOWTX\<rparr>
      in bfd_recvtimer_update bfd)"

text \<open>
  \<open>sess_new_key\<close> is what the branch on \<open>bpc_mhop\<close> and the VXLAN test after it write
  into the session: the multi-hop flag and key, or the single-hop key, and the VXLAN
  destination MAC.
\<close>

definition sess_new_key :: "bfd_peer_cfg \<Rightarrow> bfd_session \<Rightarrow> bfd_session" where
  "sess_new_key bpc bfd =
     (let bfd =
            (if bpc_mhop bpc then
               bfd\<lparr>flags := BFD_SET_FLAG (flags bfd) BFD_SESS_FLAG_MH,
                    mhop := \<lparr>mhop_peer = bpc_peer bpc,
                             mhop_local = bpc_local bpc,
                             mhop_vrf_name =
                               (if bpc_has_vrfname bpc
                                then strxcpy (MAXNAMELEN + 1) (bpc_vrfname bpc)
                                else mhop_vrf_name (mhop bfd))\<rparr>\<rparr>
             else
               bfd\<lparr>shop := \<lparr>shop_peer = bpc_peer bpc,
                             shop_port_name =
                               (if \<not> bpc_has_vxlan bpc
                                then strxcpy (MAXNAMELEN + 1) (bpc_localif bpc)
                                else shop_port_name (shop bfd))\<rparr>\<rparr>)
      in if BFD_CHECK_FLAG (flags bfd) BFD_SESS_FLAG_VXLAN
         then bfd\<lparr>peer_mac := [0x00, 0x23, 0x20, 0x00, 0x00, 0x01]\<rparr>
         else bfd)"

text \<open>
  The session is linked into the discriminator table with \<open>HASH_ADD\<close> after
  \<open>sess_new_init\<close>, and into the multi-hop or the single-hop table in the branch on
  \<open>bpc_mhop\<close>; no table is searched for the discriminator first.
\<close>

definition ptm_bfd_sess_new_create ::
  "sys_new \<Rightarrow> bfdd \<Rightarrow> bfd_peer_cfg \<Rightarrow> trap + (sess_ptr option \<times> bfdd)"
where
  "ptm_bfd_sess_new_create sys st bpc =
     (if sys_psock sys = - 1 then Inr (None, st)
      else
        (case bfd_session_new (sys_calloc_session sys) (sys_monotime sys) (sys_psock sys) of
           None \<Rightarrow> Inr (None, st)
         | Some bfd \<Rightarrow>
             (let bfd_ptr = sessions_next st;
                  st = st\<lparr>sessions_next := Suc bfd_ptr\<rparr>;
                  (discr, sid) = (if bpc_has_discr bpc then (bpc_discr bpc, sessionID st)
                                  else ptm_bfd_gen_ID (sessionID st));
                  st = st\<lparr>sessionID := sid\<rparr>;
                  bfd = sess_new_init sys bpc discr bfd;
                  st = st\<lparr>session_hash := HASH_ADD (session_hash st) bfd_ptr\<rparr>;
                  bfd = sess_new_key bpc bfd;
                  st = (if bpc_mhop bpc
                        then st\<lparr>local_peer_hash := HASH_ADD (local_peer_hash st) bfd_ptr\<rparr>
                        else st\<lparr>peer_hash := HASH_ADD (peer_hash st) bfd_ptr\<rparr>);
                  (bfd, st, ev1) =
                    static_bfd_session_update (sys_env_update sys) (sys_calloc_label sys)
                      st bfd_ptr bfd bpc;
                  bfd = bfd\<lparr>xmt_TO := BFD_DEF_SLOWTX\<rparr>;
                  (bfd, ev2) = ptm_bfd_xmt_TO (sys_env_xmt sys) bfd 0
              in Inr (Some bfd_ptr,
                      store_session st bfd_ptr bfd
                        (ev1 @ ev2 @ [Call_control_notify_config BCM_NOTIFY_CONFIG_ADD])))))"

text \<open>
  \<open>ptm_bfd_sess_new\<close>: a request for a session that exists is an update of it. The
  result is the session returned (\<open>None\<close> is \<open>NULL\<close>) and the new process state.
\<close>

definition ptm_bfd_sess_new ::
  "sys_new \<Rightarrow> bfdd \<Rightarrow> bfd_peer_cfg \<Rightarrow> trap + (sess_ptr option \<times> bfdd)"
where
  "ptm_bfd_sess_new sys st bpc =
     (case ptm_bfd_sess_new_lookup st bpc of
        Some l_bfd \<Rightarrow>
          (case bfd_session_update (sys_env_update sys) (sys_calloc_label sys) st l_bfd bpc of
             Inl t \<Rightarrow> Inl t
           | Inr (rc, st) \<Rightarrow> if rc = 0 then Inr (Some l_bfd, st) else Inr (None, st))
      | None \<Rightarrow> ptm_bfd_sess_new_create sys st bpc)"

section \<open>SLA accounting\<close>

text \<open>C's division on \<open>long\<close> truncates towards zero.\<close>

definition c_div :: "int \<Rightarrow> int \<Rightarrow> int" where
  "c_div a b = sgn a * sgn b * (\<bar>a\<bar> div \<bar>b\<bar>)"

text \<open>
  \<open>ptm_bfd_send_sla_update\<close>. The sums are \<open>uint32_t\<close>; \<open>total_pkts\<close> is the sum of the
  two receive counters cut to 32 bits. \<open>%\<close> and \<open>/=\<close> by zero stop the process
  (\<open>DivideByZero\<close>): \<open>total_pkts % detect_mult\<close> when the multiplier is 0, and
  \<open>jitter /= (detect_mult - 1)\<close> when it is 1. The loss percentage \<open>sla.pkt_loss\<close> is a
  \<open>float\<close> and is not part of the model; the report is recorded with the latency and
  the jitter the session holds when \<open>control_notify_sla\<close> is called.
\<close>

definition ptm_bfd_send_sla_update ::
  "bfd_session \<Rightarrow> timeval \<Rightarrow> trap + (bfd_session \<times> event list)"
where
  "ptm_bfd_send_sla_update bfd recv_tv =
     (let time_elapsed = (word_of_int
            ((tv_sec recv_tv * 1000 + c_div (tv_usec recv_tv) 1000)
             - (tv_sec (xmit_tv bfd) * 1000 + c_div (tv_usec (xmit_tv bfd)) 1000)) :: u32);
          bfd = bfd\<lparr>sla_lattency := sla_lattency bfd + time_elapsed\<rparr>;
          bfd = (if sla_old_lat bfd \<noteq> 0
                 then bfd\<lparr>sla_jitter := sla_jitter bfd
                            + word_of_int \<bar>sint (sla_old_lat bfd - time_elapsed)\<bar>\<rparr>
                 else bfd);
          bfd = bfd\<lparr>sla_old_lat := time_elapsed\<rparr>;
          total_pkts = (ucast (stats_rx_ctrl_pkt bfd + stats_rx_echo_pkt bfd) :: u32)
      in if detect_mult bfd = 0 then Inl DivideByZero
         else if total_pkts mod ucast (detect_mult bfd) \<noteq> 0 then Inr (bfd, [])
         else
           (let bfd =
                  (if total_pkts mod PKTS_TO_CONSIDER_FOR_PKT_LOSS < ucast (detect_mult bfd)
                   then bfd\<lparr>sla_pkts_lost :=
                          ucast ((stats_tx_ctrl_pkt bfd + stats_tx_echo_pkt bfd)
                                 - (stats_rx_ctrl_pkt bfd + stats_rx_echo_pkt bfd))\<rparr>
                   else bfd);
                bfd = bfd\<lparr>sla_lattency := sla_lattency bfd div ucast (detect_mult bfd)\<rparr>
            in if detect_mult bfd = 1 then Inl DivideByZero
               else
                 (let bfd = bfd\<lparr>sla_jitter :=
                                 sla_jitter bfd div (ucast (detect_mult bfd) - 1)\<rparr>
                  in Inr (bfd\<lparr>sla_lattency := 0, sla_jitter := 0, sla_old_lat := 0\<rparr>,
                          [Call_control_notify_sla (sla_lattency bfd) (sla_jitter bfd)]))))"

text \<open>
  Modelled from the spec: the caller of \<open>ptm_bfd_send_sla_update\<close> (bfd_packet.c is not
  among the sources). Every received control packet is counted and then folded into the
  SLA sums with the time elapsed since the last transmission; \<open>sla_samples bfd ms\<close>
  receives one packet per entry of \<open>ms\<close>, the entry being the elapsed time in
  milliseconds, and collects the reports.
\<close>

fun sla_samples :: "bfd_session \<Rightarrow> int list \<Rightarrow> trap + (bfd_session \<times> event list)" where
  "sla_samples bfd [] = Inr (bfd, [])"
| "sla_samples bfd (ms # rest) =
     (case ptm_bfd_send_sla_update
             (bfd\<lparr>stats_rx_ctrl_pkt := stats_rx_ctrl_pkt bfd + 1\<rparr>)
             \<lparr>tv_sec = tv_sec (xmit_tv bfd), tv_usec = tv_usec (xmit_tv bfd) + ms * 1000\<rparr> of
        Inl t \<Rightarrow> Inl t
      | Inr (bfd, ev) \<Rightarrow>
          (case sla_samples bfd rest of
             Inl t \<Rightarrow> Inl t
           | Inr (bfd, ev') \<Rightarrow> Inr (bfd, ev @ ev')))"

section \<open>Concrete sessions and requests\<close>

text \<open>
  The inputs at which the theorems below are instantiated: an environment, two peers, the
  request \<open>parse_list\<close> starts from, the empty daemon, and a few sessions.
\<close>

definition env_example :: env where
  "env_example = \<lparr>env_random = 7, env_gettimeofday = \<lparr>tv_sec = 100, tv_usec = 0\<rparr>,
                   env_get_monotime = \<lparr>tv_sec = 50, tv_usec = 0\<rparr>\<rparr>"

definition env_random_31 :: env where
  "env_random_31 = env_example\<lparr>env_random := 31\<rparr>"

definition peer_198_51_100_2 :: sockaddr_any where
  "peer_198_51_100_2 =
     \<lparr>sa_family = AF_INET, sa_port = 0, sa_data = [198, 51, 100, 2] @ replicate 20 0\<rparr>"

definition peer_198_51_100_3 :: sockaddr_any where
  "peer_198_51_100_3 =
     \<lparr>sa_family = AF_INET, sa_port = 0, sa_data = [198, 51, 100, 3] @ replicate 20 0\<rparr>"

text \<open>A packet from 198.51.100.3, sent from the ephemeral port 49152.\<close>

definition packet_peer :: sockaddr_any where
  "packet_peer = peer_198_51_100_3\<lparr>sa_port := 49152\<rparr>"

definition bpc_defaults :: bfd_peer_cfg where
  "bpc_defaults =
     \<lparr>bpc_ipv4 = True, bpc_peer = peer_198_51_100_2, bpc_local = sockaddr_zero,
      bpc_has_label = False, bpc_label = [], bpc_has_localif = False, bpc_localif = [],
      bpc_has_vrfname = False, bpc_vrfname = [], bpc_mhop = False, bpc_has_vxlan = False,
      bpc_has_discr = False, bpc_discr = 0, bpc_has_detectmultiplier = False,
      bpc_detectmultiplier = 3, bpc_has_recvinterval = False, bpc_recvinterval = 300000,
      bpc_has_txinterval = False, bpc_txinterval = 300000, bpc_has_echointerval = False,
      bpc_echointerval = 50000, bpc_createonly = False, bpc_shutdown = False,
      bpc_echo = False, bpc_track_sla = False\<rparr>"

text \<open>Requests: a new detect multiplier; shutdown; echo mode for a multi-hop peer.\<close>

definition bpc_detect_mult_5 :: bfd_peer_cfg where
  "bpc_detect_mult_5 =
     bpc_defaults\<lparr>bpc_has_detectmultiplier := True, bpc_detectmultiplier := 5\<rparr>"

definition bpc_shutdown_on :: bfd_peer_cfg where
  "bpc_shutdown_on = bpc_defaults\<lparr>bpc_shutdown := True\<rparr>"

definition bpc_echo_on :: bfd_peer_cfg where
  "bpc_echo_on = bpc_defaults\<lparr>bpc_mhop := True, bpc_echo := True\<rparr>"

text \<open>Requests that carry a discriminator of the caller's choice.\<close>

definition bpc_A :: bfd_peer_cfg where
  "bpc_A = bpc_defaults\<lparr>bpc_peer := peer_198_51_100_2, bpc_has_discr := True,
                         bpc_discr := 0x12345678\<rparr>"

definition bpc_B :: bfd_peer_cfg where
  "bpc_B = bpc_defaults\<lparr>bpc_peer := peer_198_51_100_3, bpc_has_discr := True,
                         bpc_discr := 0x12345678\<rparr>"

definition bpc_discr_1 :: bfd_peer_cfg where
  "bpc_discr_1 = bpc_defaults\<lparr>bpc_peer := peer_198_51_100_3, bpc_has_discr := True,
                               bpc_discr := 1\<rparr>"

definition sys_example :: sys_new where
  "sys_example =
     \<lparr>sys_psock = 5, sys_calloc_session = True, sys_calloc_label = True, sys_ifindex = 2,
      sys_local_mac = Some [0, 1, 2, 3, 4, 5], sys_monotime = \<lparr>tv_sec = 50, tv_usec = 0\<rparr>,
      sys_env_update = env_example, sys_env_xmt = env_example\<rparr>"

definition bfdd_init :: bfdd where
  "bfdd_init =
     \<lparr>sessions = (\<lambda>p. None), sessions_next = 0, session_hash = [], peer_hash = [],
      local_peer_hash = [], labels = (\<lambda>p. None), labels_next = 0, bg_pllist = [],
      iface_hash = (\<lambda>n. None), vrf_hash = (\<lambda>i. None), sessionID = sessionID_init,
      trace = []\<rparr>"

text \<open>
  A single-hop session with peer 198.51.100.2 and discriminator 1 that is Up, and the
  daemon that holds it at address 0.
\<close>

definition session_up :: bfd_session where
  "session_up =
     calloc_bfd_session
       \<lparr>my_discr := 1, remote_discr := 77, ses_state := PTM_BFD_UP, polling := 1,
        detect_mult := 3, remote_detect_mult := 3, up_min_tx := 300000,
        timers_desired_min_tx := 300000, timers_required_min_rx := 300000,
        xmt_TO := 300000, detect_TO := 900000,
        shop := \<lparr>shop_peer = peer_198_51_100_2, shop_port_name = []\<rparr>,
        recvtimer_ev := Some 900000, xmttimer_ev := Some 270000\<rparr>"

definition bfdd_up :: bfdd where
  "bfdd_up =
     bfdd_init\<lparr>sessions := (sessions bfdd_init)(0 \<mapsto> session_up), sessions_next := 1,
               session_hash := [0], peer_hash := [0], sessionID := 2\<rparr>"

text \<open>The same session in state Init, and with detect multiplier 1 and an echo interval.\<close>

definition session_init :: bfd_session where
  "session_init = session_up\<lparr>ses_state := PTM_BFD_INIT, polling := 0\<rparr>"

definition session_detect_mult_1 :: bfd_session where
  "session_detect_mult_1 = session_up\<lparr>detect_mult := 1, echo_xmt_TO := 1000000\<rparr>"

text \<open>
  A multi-hop session that is Down and has heard nothing of its peer's echo interval, and
  the daemon that holds it at address 0.
\<close>

definition session_down_mhop :: bfd_session where
  "session_down_mhop =
     calloc_bfd_session
       \<lparr>my_discr := 1, ses_state := PTM_BFD_DOWN, flags := {BFD_SESS_FLAG_MH},
        detect_mult := 3, up_min_tx := 300000, timers_desired_min_tx := 300000,
        timers_required_min_rx := 300000, xmt_TO := 1000000, detect_TO := 3000000,
        mhop := \<lparr>mhop_peer = peer_198_51_100_2, mhop_local = sockaddr_zero,
                 mhop_vrf_name = []\<rparr>,
        recvtimer_ev := Some 3000000, xmttimer_ev := Some 820000\<rparr>"

definition bfdd_down_mhop :: bfdd where
  "bfdd_down_mhop =
     bfdd_init\<lparr>sessions := (sessions bfdd_init)(0 \<mapsto> session_down_mhop),
               sessions_next := 1, session_hash := [0], local_peer_hash := [0],
               sessionID := 2\<rparr>"

text \<open>A session that tracks SLA with detect multiplier \<open>dm\<close>, last transmission at 100 s.\<close>

definition session_sla :: "u8 \<Rightarrow> bfd_session" where
  "session_sla dm =
     calloc_bfd_session\<lparr>detect_mult := dm, flags := {BFD_SESS_FLAG_TRACK_SLA},
                        xmit_tv := \<lparr>tv_sec = 100, tv_usec = 0\<rparr>\<rparr>"

text \<open>Two creations in a row, starting from the empty daemon.\<close>

definition create_A :: "trap + (sess_ptr option \<times> bfdd)" where
  "create_A = ptm_bfd_sess_new sys_example bfdd_init bpc_A"

definition create_B :: "trap + (sess_ptr option \<times> bfdd)" where
  "create_B = ptm_bfd_sess_new sys_example (snd (projr create_A)) bpc_B"

section \<open>Properties of the discriminator allocator\<close>

lemma gen_ID_calls_Suc:
  "gen_ID_calls (Suc n) s =
     (s # fst (gen_ID_calls n (s + 1)), snd (gen_ID_calls n (s + 1)))"
  by (simp add: ptm_bfd_gen_ID_def case_prod_beta)

lemma gen_ID_calls_nth: "i < n \<Longrightarrow> fst (gen_ID_calls n s) ! i = s + of_nat i"
proof (induction n arbitrary: s i)
  case 0
  then show ?case by simp
next
  case (Suc n)
  show ?case
  proof (cases i)
    case 0
    then show ?thesis by (simp add: gen_ID_calls_Suc del: gen_ID_calls.simps)
  next
    case (Suc j)
    with Suc.prems have "j < n" by simp
    from Suc.IH [OF this, of "s + 1"] Suc show ?thesis
      by (simp add: gen_ID_calls_Suc del: gen_ID_calls.simps)
  qed
qed

lemma gen_ID_nth_eq: "1 \<le> n \<Longrightarrow> gen_ID_nth n = of_nat n"
  unfolding gen_ID_nth_def sessionID_init_def
  by (cases n) (simp_all add: gen_ID_calls_nth del: gen_ID_calls.simps)

lemma gen_ID_nth_unat: "1 \<le> n \<Longrightarrow> unat (gen_ID_nth n) = n mod 2 ^ 32"
  by (simp add: gen_ID_nth_eq unat_of_nat)

text \<open>
  C4, as stated: the \<open>n\<close>-th call returns \<open>((n - 1) mod (2^32 - 1)) + 1\<close>, wrapping to 1
  and never to 0. The counter is a plain \<open>uint32_t\<close> that is incremented, so call number
  \<open>2^32\<close> returns 0 where the claim says 1.
\<close>

theorem ptm_bfd_gen_ID_wraps_to_zero:
  "unat (gen_ID_nth (2 ^ 32)) = 0 \<and>
   unat (gen_ID_nth (2 ^ 32)) \<noteq> ((2 ^ 32 - 1) mod (2 ^ 32 - 1)) + 1"
  by (simp add: gen_ID_nth_unat)

text \<open>One run of \<open>n\<close> calls, starting from the initial counter.\<close>

lemma gen_ID_calls_length: "length (fst (gen_ID_calls n s)) = n"
  by (induction n arbitrary: s) (simp_all add: gen_ID_calls_Suc del: gen_ID_calls.simps(2))

lemma gen_ID_calls_init_nth:
  "i < n \<Longrightarrow> fst (gen_ID_calls n sessionID_init) ! i = of_nat (Suc i)"
  by (simp add: gen_ID_calls_nth sessionID_init_def)

lemma unat_of_nat_Suc_u32:
  "i < n \<Longrightarrow> n < 2 ^ 32 \<Longrightarrow> unat (of_nat (Suc i) :: u32) = Suc i"
  by (simp add: unat_of_nat del: of_nat_Suc)

lemma gen_ID_calls_sorted:
  assumes "n < 2 ^ 32"
  shows "sorted_wrt (<) (fst (gen_ID_calls n sessionID_init))"
  unfolding sorted_wrt_iff_nth_less
proof (intro allI impI)
  fix i j
  assume ij: "i < j" and j: "j < length (fst (gen_ID_calls n sessionID_init))"
  then have jn: "j < n" and "i < n"
    by (simp_all add: gen_ID_calls_length)
  then show "fst (gen_ID_calls n sessionID_init) ! i < fst (gen_ID_calls n sessionID_init) ! j"
    using ij assms
    by (simp add: gen_ID_calls_init_nth word_less_nat_alt unat_of_nat_Suc_u32 del: of_nat_Suc)
qed

lemma gen_ID_calls_nonzero:
  assumes "n < 2 ^ 32"
  shows "0 \<notin> set (fst (gen_ID_calls n sessionID_init))"
proof
  assume "0 \<in> set (fst (gen_ID_calls n sessionID_init))"
  then obtain i where i: "i < n" "fst (gen_ID_calls n sessionID_init) ! i = 0"
    by (auto simp: in_set_conv_nth gen_ID_calls_length)
  then have "unat (of_nat (Suc i) :: u32) = 0"
    by (simp add: gen_ID_calls_init_nth del: of_nat_Suc)
  with unat_of_nat_Suc_u32 [OF i(1) assms] show False by simp
qed

text \<open>
  C4, amended: the \<open>n\<close>-th call returns \<open>n mod 2^32\<close>. In a run of \<open>n\<close> calls the call
  number \<open>i + 1\<close> returns that value; as long as the run has fewer than \<open>2^32\<close> calls its
  values start at 1 and increase strictly call by call, so that no value is returned
  twice and none is 0. After \<open>2^32 - 1\<close> the counter wraps to 0.
\<close>

theorem ptm_bfd_gen_ID_nth_call:
  "(1 \<le> n \<longrightarrow> unat (gen_ID_nth n) = n mod 2 ^ 32) \<and>
   (i < n \<longrightarrow> fst (gen_ID_calls n sessionID_init) ! i = gen_ID_nth (Suc i)) \<and>
   (n < 2 ^ 32 \<longrightarrow>
      sorted_wrt (<) (fst (gen_ID_calls n sessionID_init)) \<and>
      distinct (fst (gen_ID_calls n sessionID_init)) \<and>
      0 \<notin> set (fst (gen_ID_calls n sessionID_init)))"
proof (intro conjI impI)
  assume "1 \<le> n"
  then show "unat (gen_ID_nth n) = n mod 2 ^ 32"
    by (rule gen_ID_nth_unat)
next
  assume "i < n"
  then show "fst (gen_ID_calls n sessionID_init) ! i = gen_ID_nth (Suc i)"
    by (simp add: gen_ID_calls_init_nth gen_ID_nth_eq del: of_nat_Suc)
next
  assume n: "n < 2 ^ 32"
  then show s: "sorted_wrt (<) (fst (gen_ID_calls n sessionID_init))"
    by (rule gen_ID_calls_sorted)
  then show "distinct (fst (gen_ID_calls n sessionID_init))"
    by (simp add: strict_sorted_iff)
  from n show "0 \<notin> set (fst (gen_ID_calls n sessionID_init))"
    by (rule gen_ID_calls_nonzero)
qed

theorem ptm_bfd_gen_ID_nth_call_witness:
  "unat (gen_ID_nth 1) = 1 \<and> unat (gen_ID_nth 3) = 3 \<and>
   fst (gen_ID_calls 3 sessionID_init) ! 1 = gen_ID_nth (Suc 1) \<and>
   sorted_wrt (<) (fst (gen_ID_calls 3 sessionID_init)) \<and>
   distinct (fst (gen_ID_calls 3 sessionID_init)) \<and>
   0 \<notin> set (fst (gen_ID_calls 3 sessionID_init))"
  using ptm_bfd_gen_ID_nth_call [of 3 1] ptm_bfd_gen_ID_nth_call [of 1 0] by simp

section \<open>Properties of the transmit timer\<close>

lemmas timer_defs =
  bfd_recvtimer_update_def bfd_echo_recvtimer_update_def bfd_xmttimer_update_def
  bfd_echo_xmttimer_update_def bfd_recvtimer_delete_def bfd_echo_recvtimer_delete_def
  bfd_xmttimer_delete_def bfd_echo_xmttimer_delete_def

lemmas flag_defs = BFD_SET_FLAG_def BFD_UNSET_FLAG_def BFD_CHECK_FLAG_def

text \<open>The 64-bit product does not wrap when \<open>100 * T\<close> fits into 64 bits.\<close>

lemma jitter_unat:
  fixes T :: u64
  assumes "100 * unat T < 2 ^ 64" and "k \<le> 100"
  shows "unat ((T * of_nat k) div 100) = unat T * k div 100"
proof -
  have k: "unat (of_nat k :: u64) = k"
    using assms(2) by (simp add: unat_of_nat)
  have a: "unat T * k \<le> 100 * unat T"
    using assms(2) by (simp add: mult.commute)
  have lt: "unat T * k < 2 ^ 64"
    by (rule le_less_trans [OF a assms(1)])
  have "unat (T * of_nat k) = unat T * k"
    using lt k by (simp add: unat_word_ariths)
  then show ?thesis by (simp add: unat_div)
qed

text \<open>
  C5: arming a control (\<open>is_echo\<close> false) or echo (\<open>is_echo\<close> true) transmit timer
  with nominal interval \<open>T\<close>, the session's \<open>xmt_TO\<close> or \<open>echo_xmt_TO\<close>, arms it with
  \<open>T * (75 + r mod m) / 100\<close> in C's integer division, where \<open>r\<close> is the random number
  drawn for this arming and \<open>m\<close> is 16 when the local detect multiplier is 1 and 26
  otherwise. The armed interval is therefore at least 75 percent of \<open>T\<close> (rounded down)
  and at most 90 percent of \<open>T\<close> for multiplier 1, at most \<open>T\<close> otherwise. \<open>T\<close> is an
  interval in microseconds negotiated from 32-bit fields; the statement needs only that
  \<open>100 * T\<close> fits the 64-bit arithmetic of the function.
\<close>

theorem ptm_bfd_start_xmt_timer_jitter:
  assumes "100 * unat (if is_echo then echo_xmt_TO bfd else xmt_TO bfd) < 2 ^ 64"
  shows "\<exists>j. (if is_echo then echo_xmttimer_ev (ptm_bfd_start_xmt_timer e bfd is_echo)
               else xmttimer_ev (ptm_bfd_start_xmt_timer e bfd is_echo)) = Some j \<and>
          unat j = unat (if is_echo then echo_xmt_TO bfd else xmt_TO bfd)
                     * (75 + env_random e mod (if detect_mult bfd = 1 then 16 else 26)) div 100 \<and>
          75 * unat (if is_echo then echo_xmt_TO bfd else xmt_TO bfd) div 100 \<le> unat j \<and>
          100 * unat j \<le> (if detect_mult bfd = 1 then 90 else 100)
                           * unat (if is_echo then echo_xmt_TO bfd else xmt_TO bfd)"
proof -
  define T where "T = (if is_echo then echo_xmt_TO bfd else xmt_TO bfd)"
  define m :: nat where "m = (if detect_mult bfd = 1 then 16 else 26)"
  define k where "k = 75 + env_random e mod m"
  define j where "j = (T * of_nat k) div 100"
  have m: "m = 16 \<or> m = 26" by (simp add: m_def)
  have "env_random e mod m < m" using m by auto
  then have kb: "75 \<le> k" "k \<le> (if detect_mult bfd = 1 then 90 else 100)"
    by (auto simp: k_def m_def split: if_splits)
  then have k100: "k \<le> 100" by (auto split: if_splits)
  have T: "100 * unat T < 2 ^ 64" using assms by (simp add: T_def)
  have uj: "unat j = unat T * k div 100"
    unfolding j_def by (rule jitter_unat [OF T k100])
  have armed: "(if is_echo then echo_xmttimer_ev (ptm_bfd_start_xmt_timer e bfd is_echo)
                else xmttimer_ev (ptm_bfd_start_xmt_timer e bfd is_echo)) = Some j"
    by (simp add: ptm_bfd_start_xmt_timer_def Let_def bfd_echo_xmttimer_update_def
        bfd_xmttimer_update_def j_def k_def m_def T_def)
  have lo: "75 * unat T div 100 \<le> unat j"
    unfolding uj using kb(1) by (intro div_le_mono) (simp add: mult.commute)
  have "100 * unat j \<le> unat T * k" unfolding uj by simp
  also have "\<dots> \<le> unat T * (if detect_mult bfd = 1 then 90 else 100)"
    using kb(2) by (intro mult_le_mono2)
  finally have hi: "100 * unat j \<le> (if detect_mult bfd = 1 then 90 else 100) * unat T"
    by (simp add: mult.commute)
  show ?thesis using armed uj lo hi unfolding T_def k_def m_def by blast
qed

text \<open>
  At a control timer of 300000 microseconds with multiplier 3 and random number 7 the
  armed interval is 82 percent, 246000; at an echo timer of one second with multiplier 1
  and random number 31 it is 90 percent, 900000.
\<close>

theorem ptm_bfd_start_xmt_timer_jitter_witness:
  "100 * unat (xmt_TO session_up) < 2 ^ 64 \<and>
   (\<exists>j. xmttimer_ev (ptm_bfd_start_xmt_timer env_example session_up False) = Some j \<and>
        unat j = 246000) \<and>
   100 * unat (echo_xmt_TO session_detect_mult_1) < 2 ^ 64 \<and>
   (\<exists>j. echo_xmttimer_ev (ptm_bfd_start_xmt_timer env_random_31 session_detect_mult_1 True)
          = Some j \<and> unat j = 900000)"
proof -
  have xa: "xmt_TO session_up = 300000" "detect_mult session_up = 3"
    by (simp_all add: session_up_def)
  have xb: "echo_xmt_TO session_detect_mult_1 = 1000000"
    "detect_mult session_detect_mult_1 = 1"
    by (simp_all add: session_detect_mult_1_def)
  have r: "env_random env_example = 7" "env_random env_random_31 = 31"
    by (simp_all add: env_example_def env_random_31_def)
  have a: "100 * unat (if False then echo_xmt_TO session_up else xmt_TO session_up) < 2 ^ 64"
    by (simp add: xa)
  have b: "100 * unat (if True then echo_xmt_TO session_detect_mult_1
                       else xmt_TO session_detect_mult_1) < 2 ^ 64"
    by (simp add: xb)
  from ptm_bfd_start_xmt_timer_jitter [OF a, of env_example]
  obtain j1 where j1: "xmttimer_ev (ptm_bfd_start_xmt_timer env_example session_up False) = Some j1"
    "unat j1 = unat (xmt_TO session_up)
       * (75 + env_random env_example mod (if detect_mult session_up = 1 then 16 else 26)) div 100"
    by auto
  from ptm_bfd_start_xmt_timer_jitter [OF b, of env_random_31]
  obtain j2 where j2:
    "echo_xmttimer_ev (ptm_bfd_start_xmt_timer env_random_31 session_detect_mult_1 True) = Some j2"
    "unat j2 = unat (echo_xmt_TO session_detect_mult_1)
       * (75 + env_random env_random_31
                 mod (if detect_mult session_detect_mult_1 = 1 then 16 else 26)) div 100"
    by auto
  have "unat j1 = 246000" using j1(2) by (simp add: xa r)
  moreover have "unat j2 = 900000" using j2(2) by (simp add: xb r)
  ultimately show ?thesis using j1(1) j2(1) by (simp add: xa xb)
qed

section \<open>Properties of the transition to Down\<close>

lemma ptm_bfd_echo_stop_0:
  "ptm_bfd_echo_stop bfd 0 =
     (bfd\<lparr>echo_xmt_TO := 0, echo_detect_TO := 0,
           flags := flags bfd - {BFD_SESS_FLAG_ECHO_ACTIVE},
           echo_xmttimer_ev := None, echo_recvtimer_ev := None\<rparr>, [])"
  by (simp add: ptm_bfd_echo_stop_def Let_def timer_defs flag_defs)

lemma ptm_bfd_ses_dn_fields:
  "ses_state (fst (ptm_bfd_ses_dn e bfd diag)) = PTM_BFD_DOWN"
  "remote_discr (fst (ptm_bfd_ses_dn e bfd diag)) = 0"
  "polling (fst (ptm_bfd_ses_dn e bfd diag)) = 0"
  "local_diag (fst (ptm_bfd_ses_dn e bfd diag)) = diag"
  by (simp_all add: ptm_bfd_ses_dn_def Let_def ptm_bfd_echo_stop_0 flag_defs)

lemma ptm_bfd_ses_dn_events:
  "snd (ptm_bfd_ses_dn e bfd diag) =
     (if ses_state bfd = PTM_BFD_UP
      then [Call_ptm_bfd_snd 0, Call_control_notify PTM_BFD_DOWN]
      else [Call_ptm_bfd_snd 0])"
  by (simp add: ptm_bfd_ses_dn_def Let_def ptm_bfd_echo_stop_0 flag_defs)

lemma bfd_recvtimer_cb_dn:
  "ses_state bs = PTM_BFD_UP \<or> ses_state bs = PTM_BFD_INIT \<Longrightarrow>
   bfd_recvtimer_cb e bs =
     (bfd_recvtimer_update (fst (ptm_bfd_ses_dn e bs BFD_DIAGDETECTTIME)),
      snd (ptm_bfd_ses_dn e bs BFD_DIAGDETECTTIME))"
  by (auto simp: bfd_recvtimer_cb_def case_prod_beta)

lemma session_up_state: "ses_state session_up = PTM_BFD_UP"
  by (simp add: session_up_def)

lemma session_init_state: "ses_state session_init = PTM_BFD_INIT"
  by (simp add: session_init_def)

text \<open>
  C6: \<open>ptm_bfd_ses_dn\<close> leaves the session in state Down with remote discriminator 0,
  polling cleared and the local diagnostic set to the code it was given, whatever the
  session was before; and when the detection timer fires on a session that is Up or Init,
  the session ends in Down with remote discriminator 0, polling cleared and local
  diagnostic DetectTime.
\<close>

theorem ptm_bfd_ses_dn_clears:
  "ses_state (fst (ptm_bfd_ses_dn e bfd diag)) = PTM_BFD_DOWN \<and>
   remote_discr (fst (ptm_bfd_ses_dn e bfd diag)) = 0 \<and>
   polling (fst (ptm_bfd_ses_dn e bfd diag)) = 0 \<and>
   local_diag (fst (ptm_bfd_ses_dn e bfd diag)) = diag \<and>
   (ses_state bs = PTM_BFD_UP \<or> ses_state bs = PTM_BFD_INIT \<longrightarrow>
      ses_state (fst (bfd_recvtimer_cb e bs)) = PTM_BFD_DOWN \<and>
      remote_discr (fst (bfd_recvtimer_cb e bs)) = 0 \<and>
      polling (fst (bfd_recvtimer_cb e bs)) = 0 \<and>
      local_diag (fst (bfd_recvtimer_cb e bs)) = BFD_DIAGDETECTTIME)"
  by (simp add: ptm_bfd_ses_dn_fields bfd_recvtimer_cb_dn bfd_recvtimer_update_def)

theorem ptm_bfd_ses_dn_clears_witness:
  "ses_state session_up = PTM_BFD_UP \<and> remote_discr session_up = 77 \<and>
   polling session_up = 1 \<and>
   ses_state (fst (bfd_recvtimer_cb env_example session_up)) = PTM_BFD_DOWN \<and>
   remote_discr (fst (bfd_recvtimer_cb env_example session_up)) = 0 \<and>
   polling (fst (bfd_recvtimer_cb env_example session_up)) = 0 \<and>
   local_diag (fst (bfd_recvtimer_cb env_example session_up)) = BFD_DIAGDETECTTIME"
  using ptm_bfd_ses_dn_clears [of env_example session_up 0 session_up]
  by (simp add: session_up_def)

text \<open>
  C10: \<open>ptm_bfd_ses_dn\<close> calls \<open>control_notify\<close> exactly when the state it leaves is
  Up. When the detection timer fires on a session in Init, the session goes to Down and
  the only call that leaves bfd.c is the transmission of one control packet: observers
  are not notified.
\<close>

theorem ptm_bfd_ses_dn_notifies_only_from_up:
  "((\<exists>s. Call_control_notify s \<in> set (snd (ptm_bfd_ses_dn e bfd diag)))
      \<longleftrightarrow> ses_state bfd = PTM_BFD_UP) \<and>
   (ses_state bs = PTM_BFD_INIT \<longrightarrow>
      ses_state (fst (bfd_recvtimer_cb e bs)) = PTM_BFD_DOWN \<and>
      snd (bfd_recvtimer_cb e bs) = [Call_ptm_bfd_snd 0])"
  by (simp add: ptm_bfd_ses_dn_fields ptm_bfd_ses_dn_events bfd_recvtimer_cb_dn
      bfd_recvtimer_update_def)

theorem ptm_bfd_ses_dn_notifies_only_from_up_witness:
  "ses_state session_init = PTM_BFD_INIT \<and>
   ses_state (fst (bfd_recvtimer_cb env_example session_init)) = PTM_BFD_DOWN \<and>
   snd (bfd_recvtimer_cb env_example session_init) = [Call_ptm_bfd_snd 0]"
  using ptm_bfd_ses_dn_notifies_only_from_up [of env_example session_init 0 session_init]
  by (simp add: session_init_state)

section \<open>Properties of the configuration update\<close>

lemma ptm_bfd_echo_start_eq:
  "ptm_bfd_echo_start e bfd =
     (bfd\<lparr>echo_detect_TO := ucast (remote_detect_mult bfd) * echo_xmt_TO bfd,
           xmit_tv := env_gettimeofday e,
           echo_xmttimer_ev := Some ((echo_xmt_TO bfd
              * of_nat (75 + env_random e mod (if detect_mult bfd = 1 then 16 else 26))) div 100),
           polling := 1,
           new_timers_desired_min_tx := up_min_tx bfd,
           new_timers_required_min_rx := timers_required_min_rx bfd\<rparr>,
      [Call_ptm_bfd_echo_snd, Call_ptm_bfd_snd 0])"
  by (simp add: ptm_bfd_echo_start_def ptm_bfd_echo_xmt_TO_def ptm_bfd_start_xmt_timer_def
      Let_def timer_defs)

text \<open>What each block of the update keeps and what it sets.\<close>

lemma session_update_echo_keeps:
  "ses_state (fst (session_update_echo e bs bpc)) = ses_state bs"
  "my_discr (fst (session_update_echo e bs bpc)) = my_discr bs"
  "remote_discr (fst (session_update_echo e bs bpc)) = remote_discr bs"
  "local_diag (fst (session_update_echo e bs bpc)) = local_diag bs"
  "detect_mult (fst (session_update_echo e bs bpc)) = detect_mult bs"
  "up_min_tx (fst (session_update_echo e bs bpc)) = up_min_tx bs"
  "timers_required_min_rx (fst (session_update_echo e bs bpc)) = timers_required_min_rx bs"
  "timers_required_min_echo (fst (session_update_echo e bs bpc)) = timers_required_min_echo bs"
  "shop (fst (session_update_echo e bs bpc)) = shop bs"
  "mhop (fst (session_update_echo e bs bpc)) = mhop bs"
  by (simp_all add: session_update_echo_def Let_def ptm_bfd_echo_start_eq ptm_bfd_echo_stop_0
      timer_defs)

lemma session_update_echo_on:
  "bpc_echo bpc \<Longrightarrow>
   snd (session_update_echo e bs bpc) = [Call_ptm_bfd_echo_snd, Call_ptm_bfd_snd 0]"
  by (simp add: session_update_echo_def Let_def ptm_bfd_echo_start_eq)

lemma session_update_params_keeps:
  "ses_state (session_update_params bs bpc) = ses_state bs"
  "my_discr (session_update_params bs bpc) = my_discr bs"
  "remote_discr (session_update_params bs bpc) = remote_discr bs"
  "local_diag (session_update_params bs bpc) = local_diag bs"
  "shop (session_update_params bs bpc) = shop bs"
  "mhop (session_update_params bs bpc) = mhop bs"
  by (simp_all add: session_update_params_def Let_def)

lemma session_update_params_sets:
  "detect_mult (session_update_params bs bpc) =
     (if bpc_has_detectmultiplier bpc then bpc_detectmultiplier bpc else detect_mult bs)"
  "up_min_tx (session_update_params bs bpc) =
     (if bpc_has_txinterval bpc then ucast (bpc_txinterval bpc * 1000) else up_min_tx bs)"
  "timers_required_min_rx (session_update_params bs bpc) =
     (if bpc_has_recvinterval bpc then ucast (bpc_recvinterval bpc * 1000)
      else timers_required_min_rx bs)"
  "timers_required_min_echo (session_update_params bs bpc) =
     (if bpc_has_echointerval bpc then ucast (bpc_echointerval bpc * 1000)
      else timers_required_min_echo bs)"
  by (simp_all add: session_update_params_def Let_def)

lemma session_update_label_keeps:
  "ses_state (fst (session_update_label c st p bs bpc)) = ses_state bs"
  "my_discr (fst (session_update_label c st p bs bpc)) = my_discr bs"
  "remote_discr (fst (session_update_label c st p bs bpc)) = remote_discr bs"
  "local_diag (fst (session_update_label c st p bs bpc)) = local_diag bs"
  "detect_mult (fst (session_update_label c st p bs bpc)) = detect_mult bs"
  "up_min_tx (fst (session_update_label c st p bs bpc)) = up_min_tx bs"
  "timers_required_min_rx (fst (session_update_label c st p bs bpc)) = timers_required_min_rx bs"
  "timers_required_min_echo (fst (session_update_label c st p bs bpc))
     = timers_required_min_echo bs"
  "shop (fst (session_update_label c st p bs bpc)) = shop bs"
  "mhop (fst (session_update_label c st p bs bpc)) = mhop bs"
  by (simp_all add: session_update_label_def pl_new_def Let_def split: option.split)

lemma session_update_label_state:
  "sessions (snd (session_update_label c st p bs bpc)) = sessions st"
  "trace (snd (session_update_label c st p bs bpc)) = trace st"
  "session_hash (snd (session_update_label c st p bs bpc)) = session_hash st"
  "peer_hash (snd (session_update_label c st p bs bpc)) = peer_hash st"
  "local_peer_hash (snd (session_update_label c st p bs bpc)) = local_peer_hash st"
  "sessions_next (snd (session_update_label c st p bs bpc)) = sessions_next st"
  by (simp_all add: session_update_label_def pl_new_def Let_def split: option.split)

lemma session_update_shutdown_set:
  "bpc_shutdown bpc \<Longrightarrow>
   fst (session_update_shutdown bs bpc) =
     bs\<lparr>flags := insert BFD_SESS_FLAG_SHUTDOWN (flags bs), recvtimer_ev := None,
         echo_recvtimer_ev := None, xmttimer_ev := None, echo_xmttimer_ev := None,
         ses_state := PTM_BFD_ADM_DOWN\<rparr>"
  "bpc_shutdown bpc \<Longrightarrow>
   snd (session_update_shutdown bs bpc) =
     [Call_control_notify PTM_BFD_ADM_DOWN, Call_ptm_bfd_snd 0]"
  by (simp_all add: session_update_shutdown_def Let_def timer_defs flag_defs)

lemma session_update_shutdown_unset:
  "\<not> bpc_shutdown bpc \<Longrightarrow>
   fst (session_update_shutdown bs bpc) =
     bs\<lparr>flags := flags bs - {BFD_SESS_FLAG_SHUTDOWN}, ses_state := PTM_BFD_DOWN,
         recvtimer_ev := Some (detect_TO bs),
         echo_recvtimer_ev := Some (echo_detect_TO bs),
         xmttimer_ev := Some (xmt_TO bs),
         echo_xmttimer_ev := (if BFD_SESS_FLAG_ECHO \<in> flags bs then Some (echo_xmt_TO bs)
                              else echo_xmttimer_ev bs)\<rparr>"
  "\<not> bpc_shutdown bpc \<Longrightarrow>
   snd (session_update_shutdown bs bpc) = [Call_control_notify PTM_BFD_DOWN]"
  by (simp_all add: session_update_shutdown_def Let_def timer_defs flag_defs)

lemma session_update_shutdown_keeps:
  "my_discr (fst (session_update_shutdown bs bpc)) = my_discr bs"
  "shop (fst (session_update_shutdown bs bpc)) = shop bs"
  "mhop (fst (session_update_shutdown bs bpc)) = mhop bs"
  by (simp_all add: session_update_shutdown_def Let_def timer_defs)

text \<open>The update as the composition of its blocks.\<close>

lemma static_update_fst:
  "fst (static_bfd_session_update e c st p bs bpc) =
     fst (session_update_shutdown
       (fst (session_update_label c st p
          (session_update_params (fst (session_update_echo e bs bpc)) bpc) bpc)) bpc)"
  by (simp add: static_bfd_session_update_def Let_def case_prod_beta)

lemma static_update_events:
  "snd (snd (static_bfd_session_update e c st p bs bpc)) =
     snd (session_update_echo e bs bpc) @
     snd (session_update_shutdown
       (fst (session_update_label c st p
          (session_update_params (fst (session_update_echo e bs bpc)) bpc) bpc)) bpc)"
  by (simp add: static_bfd_session_update_def Let_def case_prod_beta)

lemma static_update_state:
  "fst (snd (static_bfd_session_update e c st p bs bpc)) =
     snd (session_update_label c st p
          (session_update_params (fst (session_update_echo e bs bpc)) bpc) bpc)"
  by (simp add: static_bfd_session_update_def Let_def case_prod_beta)

lemma static_update_keys:
  "my_discr (fst (static_bfd_session_update e c st p bs bpc)) = my_discr bs"
  "shop (fst (static_bfd_session_update e c st p bs bpc)) = shop bs"
  "mhop (fst (static_bfd_session_update e c st p bs bpc)) = mhop bs"
  by (simp_all add: static_update_fst session_update_shutdown_keeps session_update_label_keeps
      session_update_params_keeps session_update_echo_keeps)

lemma static_update_indices:
  "sessions (fst (snd (static_bfd_session_update e c st p bs bpc))) = sessions st"
  "trace (fst (snd (static_bfd_session_update e c st p bs bpc))) = trace st"
  "session_hash (fst (snd (static_bfd_session_update e c st p bs bpc))) = session_hash st"
  "peer_hash (fst (snd (static_bfd_session_update e c st p bs bpc))) = peer_hash st"
  "local_peer_hash (fst (snd (static_bfd_session_update e c st p bs bpc))) = local_peer_hash st"
  "sessions_next (fst (snd (static_bfd_session_update e c st p bs bpc))) = sessions_next st"
  by (simp_all add: static_update_state session_update_label_state)

lemma static_update_unshut_fields:
  assumes "\<not> bpc_shutdown bpc"
  shows "ses_state (fst (static_bfd_session_update e c st p bs bpc)) = PTM_BFD_DOWN"
    and "remote_discr (fst (static_bfd_session_update e c st p bs bpc)) = remote_discr bs"
    and "local_diag (fst (static_bfd_session_update e c st p bs bpc)) = local_diag bs"
    and "detect_mult (fst (static_bfd_session_update e c st p bs bpc)) =
           (if bpc_has_detectmultiplier bpc then bpc_detectmultiplier bpc else detect_mult bs)"
    and "up_min_tx (fst (static_bfd_session_update e c st p bs bpc)) =
           (if bpc_has_txinterval bpc then ucast (bpc_txinterval bpc * 1000) else up_min_tx bs)"
    and "timers_required_min_rx (fst (static_bfd_session_update e c st p bs bpc)) =
           (if bpc_has_recvinterval bpc then ucast (bpc_recvinterval bpc * 1000)
            else timers_required_min_rx bs)"
    and "timers_required_min_echo (fst (static_bfd_session_update e c st p bs bpc)) =
           (if bpc_has_echointerval bpc then ucast (bpc_echointerval bpc * 1000)
            else timers_required_min_echo bs)"
  using assms
  by (simp_all add: static_update_fst session_update_shutdown_unset session_update_label_keeps
      session_update_params_keeps session_update_params_sets session_update_echo_keeps)

lemma static_update_unshut_notify:
  "\<not> bpc_shutdown bpc \<Longrightarrow>
   Call_control_notify PTM_BFD_DOWN
     \<in> set (snd (snd (static_bfd_session_update e c st p bs bpc)))"
  by (simp add: static_update_events session_update_shutdown_unset)

lemma store_session_simps:
  "sessions (store_session st p bs ev) = (sessions st)(p \<mapsto> bs)"
  "trace (store_session st p bs ev) = trace st @ map (Pair p) ev"
  "session_hash (store_session st p bs ev) = session_hash st"
  "peer_hash (store_session st p bs ev) = peer_hash st"
  "local_peer_hash (store_session st p bs ev) = local_peer_hash st"
  "sessions_next (store_session st p bs ev) = sessions_next st"
  by (simp_all add: store_session_def)

lemma bfd_session_update_eq:
  "\<not> bpc_createonly bpc \<Longrightarrow> sessions st p = Some bs \<Longrightarrow>
   bfd_session_update e c st p bpc =
     Inr (0, store_session (fst (snd (static_bfd_session_update e c st p bs bpc))) p
               (fst (static_bfd_session_update e c st p bs bpc))
               (snd (snd (static_bfd_session_update e c st p bs bpc))
                @ [Call_control_notify_config BCM_NOTIFY_CONFIG_UPDATE]))"
  by (simp add: bfd_session_update_def case_prod_beta Let_def)

lemma sessions_bfdd_up: "sessions bfdd_up 0 = Some session_up"
  by (simp add: bfdd_up_def)

lemma bpc_detect_mult_5_simps:
  "\<not> bpc_createonly bpc_detect_mult_5" "\<not> bpc_shutdown bpc_detect_mult_5"
  "bpc_has_detectmultiplier bpc_detect_mult_5" "bpc_detectmultiplier bpc_detect_mult_5 = 5"
  by (simp_all add: bpc_detect_mult_5_def bpc_defaults_def)

lemma bpc_shutdown_on_simps: "bpc_shutdown bpc_shutdown_on"
  by (simp add: bpc_shutdown_on_def)

text \<open>
  C7: after \<open>_bfd_session_update\<close> the session's state is AdminDown if and only if the
  flag \<open>BFD_SESS_FLAG_SHUTDOWN\<close> is set. An update with shutdown set leaves the state
  AdminDown, the flag set and none of the four timers (control transmit, control detect,
  echo transmit, echo detect) pending; an update with shutdown unset leaves the flag
  clear and the state Down, the transmit timer armed with \<open>xmt_TO\<close> and the detect timer
  armed with \<open>detect_TO\<close>.
\<close>

theorem static_bfd_session_update_shutdown_iff:
  "(ses_state (fst (static_bfd_session_update e c st p bs bpc)) = PTM_BFD_ADM_DOWN
      \<longleftrightarrow> BFD_CHECK_FLAG (flags (fst (static_bfd_session_update e c st p bs bpc)))
            BFD_SESS_FLAG_SHUTDOWN) \<and>
   (bpc_shutdown bpc \<longrightarrow>
      ses_state (fst (static_bfd_session_update e c st p bs bpc)) = PTM_BFD_ADM_DOWN \<and>
      BFD_CHECK_FLAG (flags (fst (static_bfd_session_update e c st p bs bpc)))
        BFD_SESS_FLAG_SHUTDOWN \<and>
      xmttimer_ev (fst (static_bfd_session_update e c st p bs bpc)) = None \<and>
      recvtimer_ev (fst (static_bfd_session_update e c st p bs bpc)) = None \<and>
      echo_xmttimer_ev (fst (static_bfd_session_update e c st p bs bpc)) = None \<and>
      echo_recvtimer_ev (fst (static_bfd_session_update e c st p bs bpc)) = None) \<and>
   (\<not> bpc_shutdown bpc \<longrightarrow>
      \<not> BFD_CHECK_FLAG (flags (fst (static_bfd_session_update e c st p bs bpc)))
          BFD_SESS_FLAG_SHUTDOWN \<and>
      ses_state (fst (static_bfd_session_update e c st p bs bpc)) = PTM_BFD_DOWN \<and>
      xmttimer_ev (fst (static_bfd_session_update e c st p bs bpc))
        = Some (xmt_TO (fst (static_bfd_session_update e c st p bs bpc))) \<and>
      recvtimer_ev (fst (static_bfd_session_update e c st p bs bpc))
        = Some (detect_TO (fst (static_bfd_session_update e c st p bs bpc))))"
proof (cases "bpc_shutdown bpc")
  case True
  then show ?thesis
    by (simp add: static_update_fst session_update_shutdown_set flag_defs)
next
  case False
  then show ?thesis
    by (simp add: static_update_fst session_update_shutdown_unset flag_defs)
qed

text \<open>Shutting the Up session down, and updating it without shutdown.\<close>

theorem static_bfd_session_update_shutdown_iff_witness:
  "bpc_shutdown bpc_shutdown_on \<and>
   ses_state (fst (static_bfd_session_update env_example True bfdd_up 0 session_up
                     bpc_shutdown_on)) = PTM_BFD_ADM_DOWN \<and>
   xmttimer_ev (fst (static_bfd_session_update env_example True bfdd_up 0 session_up
                       bpc_shutdown_on)) = None \<and>
   recvtimer_ev (fst (static_bfd_session_update env_example True bfdd_up 0 session_up
                        bpc_shutdown_on)) = None \<and>
   \<not> bpc_shutdown bpc_detect_mult_5 \<and>
   ses_state (fst (static_bfd_session_update env_example True bfdd_up 0 session_up
                     bpc_detect_mult_5)) = PTM_BFD_DOWN \<and>
   \<not> BFD_CHECK_FLAG (flags (fst (static_bfd_session_update env_example True bfdd_up 0
                                   session_up bpc_detect_mult_5))) BFD_SESS_FLAG_SHUTDOWN"
  using static_bfd_session_update_shutdown_iff
          [of env_example True bfdd_up 0 session_up bpc_shutdown_on]
        static_bfd_session_update_shutdown_iff
          [of env_example True bfdd_up 0 session_up bpc_detect_mult_5]
  by (simp add: bpc_shutdown_on_simps bpc_detect_mult_5_simps)

text \<open>
  C2, as stated: an update with the shutdown flag unset that changes only the detect
  multiplier leaves a session that is Up in state Up. The update of the Up session
  \<open>session_up\<close> with the request \<open>bpc_detect_mult_5\<close> returns 0 and leaves the session
  in state Down: \<open>_bfd_session_update\<close> assigns \<open>PTM_BFD_DOWN\<close> whenever the request
  does not ask for shutdown.
\<close>

theorem bfd_session_update_up_not_kept:
  "map_option ses_state (sessions bfdd_up 0) = Some PTM_BFD_UP \<and>
   \<not> bpc_shutdown bpc_detect_mult_5 \<and>
   \<not> isl (bfd_session_update env_example True bfdd_up 0 bpc_detect_mult_5) \<and>
   fst (projr (bfd_session_update env_example True bfdd_up 0 bpc_detect_mult_5)) = 0 \<and>
   map_option ses_state
     (sessions (snd (projr (bfd_session_update env_example True bfdd_up 0 bpc_detect_mult_5))) 0)
     = Some PTM_BFD_DOWN"
  by (simp add: bfd_session_update_eq [OF bpc_detect_mult_5_simps(1) sessions_bfdd_up]
      store_session_simps static_update_unshut_fields [OF bpc_detect_mult_5_simps(2)]
      sessions_bfdd_up session_up_state bpc_detect_mult_5_simps)

text \<open>
  C2, amended: for every existing session in state Up, a configuration update that is not
  create-only and has the shutdown flag unset succeeds, stores the detect multiplier,
  \<open>required_min_rx\<close>, \<open>up_min_tx\<close> and \<open>required_min_echo\<close> it carries (the others
  stay), and sets the session's protocol state to Down, notifying observers of it. The
  session does not stay Up. The session's discriminators and its local diagnostic are
  kept: the state is assigned directly, not through \<open>ptm_bfd_ses_dn\<close>.
\<close>

theorem bfd_session_update_up_goes_down:
  assumes "sessions st p = Some bs" and "ses_state bs = PTM_BFD_UP"
    and "\<not> bpc_createonly bpc" and "\<not> bpc_shutdown bpc"
  shows "\<exists>st' bs'. bfd_session_update e c st p bpc = Inr (0, st') \<and>
           sessions st' p = Some bs' \<and>
           ses_state bs' = PTM_BFD_DOWN \<and>
           (p, Call_control_notify PTM_BFD_DOWN) \<in> set (trace st') \<and>
           my_discr bs' = my_discr bs \<and> remote_discr bs' = remote_discr bs \<and>
           local_diag bs' = local_diag bs \<and>
           detect_mult bs' =
             (if bpc_has_detectmultiplier bpc then bpc_detectmultiplier bpc else detect_mult bs) \<and>
           up_min_tx bs' =
             (if bpc_has_txinterval bpc then ucast (bpc_txinterval bpc * 1000) else up_min_tx bs) \<and>
           timers_required_min_rx bs' =
             (if bpc_has_recvinterval bpc then ucast (bpc_recvinterval bpc * 1000)
              else timers_required_min_rx bs) \<and>
           timers_required_min_echo bs' =
             (if bpc_has_echointerval bpc then ucast (bpc_echointerval bpc * 1000)
              else timers_required_min_echo bs)"
proof -
  let ?r = "static_bfd_session_update e c st p bs bpc"
  let ?ev = "snd (snd ?r) @ [Call_control_notify_config BCM_NOTIFY_CONFIG_UPDATE]"
  let ?st' = "store_session (fst (snd ?r)) p (fst ?r) ?ev"
  have eq: "bfd_session_update e c st p bpc = Inr (0, ?st')"
    using assms(3,1) by (rule bfd_session_update_eq)
  have s: "sessions ?st' p = Some (fst ?r)"
    by (simp add: store_session_simps)
  have n: "(p, Call_control_notify PTM_BFD_DOWN) \<in> set (trace ?st')"
    using static_update_unshut_notify [OF assms(4), of e c st p bs]
    by (simp add: store_session_simps image_iff)
  show ?thesis
    using eq s n static_update_unshut_fields [OF assms(4), of e c st p bs]
      static_update_keys(1) [of e c st p bs bpc]
    by blast
qed

theorem bfd_session_update_up_goes_down_witness:
  "sessions bfdd_up 0 = Some session_up \<and> ses_state session_up = PTM_BFD_UP \<and>
   \<not> bpc_createonly bpc_detect_mult_5 \<and> \<not> bpc_shutdown bpc_detect_mult_5 \<and>
   (\<exists>st' bs'. bfd_session_update env_example True bfdd_up 0 bpc_detect_mult_5 = Inr (0, st') \<and>
      sessions st' 0 = Some bs' \<and> ses_state bs' = PTM_BFD_DOWN \<and> detect_mult bs' = 5)"
  using bfd_session_update_up_goes_down
          [OF sessions_bfdd_up session_up_state bpc_detect_mult_5_simps(1,2),
           of env_example True]
  by (simp add: sessions_bfdd_up session_up_state bpc_detect_mult_5_simps) blast

text \<open>
  \<open>ptm_bfd_ses_up\<close> starts echo transmission under a guard: the echo interval is not
  zero and the session is not multi-hop.
\<close>

lemma ptm_bfd_ses_up_events:
  "snd (ptm_bfd_ses_up e bfd) =
     (if echo_xmt_TO bfd \<noteq> 0 \<and> BFD_SESS_FLAG_MH \<notin> flags bfd
      then [Call_ptm_bfd_echo_snd, Call_ptm_bfd_snd 0, Call_control_notify PTM_BFD_UP]
      else [Call_ptm_bfd_snd 0, Call_control_notify PTM_BFD_UP])"
  by (simp add: ptm_bfd_ses_up_def Let_def ptm_bfd_echo_start_eq flag_defs)

lemma sessions_bfdd_down_mhop: "sessions bfdd_down_mhop 0 = Some session_down_mhop"
  by (simp add: bfdd_down_mhop_def)

lemma bpc_echo_on_simps:
  "\<not> bpc_createonly bpc_echo_on" "\<not> bpc_shutdown bpc_echo_on" "bpc_echo bpc_echo_on"
  by (simp_all add: bpc_echo_on_def bpc_defaults_def)

text \<open>
  C8 at the input where the code departs from it: a multi-hop session that is Down, with
  echo interval 0, receives a configuration update with echo mode on. The update calls
  \<open>ptm_bfd_echo_start\<close> without a test: an echo packet is sent, then a control packet,
  before the state is notified. \<open>ptm_bfd_ses_up\<close> on the same session, which has the
  guard, sends no echo packet.
\<close>

theorem bfd_session_update_starts_echo_when_down_mhop:
  "ses_state session_down_mhop = PTM_BFD_DOWN \<and>
   BFD_CHECK_FLAG (flags session_down_mhop) BFD_SESS_FLAG_MH \<and>
   echo_xmt_TO session_down_mhop = 0 \<and>
   trace bfdd_down_mhop = [] \<and>
   trace (snd (projr (bfd_session_update env_example True bfdd_down_mhop 0 bpc_echo_on))) =
     [(0, Call_ptm_bfd_echo_snd), (0, Call_ptm_bfd_snd 0),
      (0, Call_control_notify PTM_BFD_DOWN),
      (0, Call_control_notify_config BCM_NOTIFY_CONFIG_UPDATE)] \<and>
   snd (ptm_bfd_ses_up env_example session_down_mhop) =
     [Call_ptm_bfd_snd 0, Call_control_notify PTM_BFD_UP]"
  apply (simp add: bfd_session_update_eq [OF bpc_echo_on_simps(1) sessions_bfdd_down_mhop]
      store_session_simps static_update_events static_update_indices
      session_update_echo_on [OF bpc_echo_on_simps(3)]
      session_update_shutdown_unset [OF bpc_echo_on_simps(2)] ptm_bfd_ses_up_events)
  apply (simp add: session_down_mhop_def calloc_bfd_session_def flag_defs bfdd_down_mhop_def
      bfdd_init_def)
  done

section \<open>Properties of the lookup by discriminator\<close>

lemma HASH_FIND_Some:
  "HASH_FIND key_of heap head k = Some p \<Longrightarrow> \<exists>bs. heap p = Some bs \<and> key_of bs = k"
  by (auto simp: HASH_FIND_def find_Some_iff split: option.splits)

lemma HASH_FIND_Nil: "HASH_FIND key_of heap [] k = None"
  by (simp add: HASH_FIND_def)

lemma HASH_FIND_single:
  "heap p = Some bs \<Longrightarrow>
   HASH_FIND key_of heap [p] k = (if key_of bs = k then Some p else None)"
  by (simp add: HASH_FIND_def)

text \<open>
  The session the table returns for \<open>ldisc\<close> has \<open>ldisc\<close> as its discriminator, so the
  test \<open>bs->discrs.my_discr != ldisc && !memcmp(...)\<close> never holds: \<open>bfd_find_disc\<close>
  returns what the table returns, whatever the address.
\<close>

lemma bfd_find_disc_ignores_address:
  "fst (bfd_find_disc st sa ldisc) = bs_session_find st ldisc"
proof (cases "HASH_FIND my_discr (sessions st) (session_hash st) ldisc")
  case None
  then show ?thesis by (simp add: bfd_find_disc_def bs_session_find_def)
next
  case (Some p)
  from HASH_FIND_Some [OF this]
  obtain bs where "sessions st p = Some bs" "my_discr bs = ldisc"
    by blast
  with Some show ?thesis
    by (simp add: bfd_find_disc_def bs_session_find_def Let_def)
qed

lemma bs_session_find_bfdd_up: "bs_session_find bfdd_up 1 = Some 0"
  by (simp add: bs_session_find_def HASH_FIND_def bfdd_up_def session_up_def)

text \<open>
  C1 at the input where the code departs from it: the daemon holds one session, with
  discriminator 1 and stored peer 198.51.100.2. A control packet with your-discriminator 1
  arrives from 198.51.100.3, port 49152. With the port zeroed the packet's address still
  differs from the stored peer, and the lookup returns the session.
\<close>

theorem ptm_bfd_sess_find_accepts_other_peer:
  "sessions bfdd_up 0 = Some session_up \<and>
   my_discr session_up = 1 \<and>
   shop_peer (shop session_up) = peer_198_51_100_2 \<and>
   packet_peer\<lparr>sa_port := 0\<rparr> \<noteq> peer_198_51_100_2 \<and>
   ptm_bfd_sess_find bfdd_up (Some \<lparr>cp_remote_discr = 1, cp_state = PTM_BFD_UP\<rparr>) (Some [])
     packet_peer sockaddr_zero None False = Inr (Some 0)"
  by (simp add: ptm_bfd_sess_find_def bfd_find_disc_ignores_address bs_session_find_bfdd_up
      sessions_bfdd_up)
     (simp add: session_up_def packet_peer_def peer_198_51_100_2_def peer_198_51_100_3_def)

section \<open>Properties of the SLA accounting\<close>

lemma unat_ucast_u8_u32: "unat (ucast (x :: u8) :: u32) = unat x"
  by (simp add: unsigned_ucast_eq take_bit_nat_eq_self unsigned_less [THEN less_le_trans])

text \<open>
  With a detect multiplier of at least 2 the function returns, and it reports exactly
  when the number of packets received, as the 32-bit \<open>total_pkts\<close>, is a multiple of
  the multiplier.
\<close>

lemma ptm_bfd_send_sla_update_report_iff:
  assumes "2 \<le> unat (detect_mult bfd)"
  shows "\<exists>bfd' ev. ptm_bfd_send_sla_update bfd tv = Inr (bfd', ev) \<and>
     (ev \<noteq> [] \<longleftrightarrow>
        unat (ucast (stats_rx_ctrl_pkt bfd + stats_rx_echo_pkt bfd) :: u32)
          mod unat (detect_mult bfd) = 0)"
proof -
  have ne: "detect_mult bfd \<noteq> 0" "detect_mult bfd \<noteq> 1"
    using assms by auto
  have m: "(t mod ucast (detect_mult bfd) = 0) = (unat t mod unat (detect_mult bfd) = 0)"
    for t :: u32
    by (simp add: unat_eq_0 [symmetric] unat_mod unat_ucast_u8_u32)
  show ?thesis
    using ne by (simp add: ptm_bfd_send_sla_update_def Let_def m)
qed

text \<open>
  The scenario of the spec: multiplier 3 and three packets with elapsed times 10, 20 and
  30 ms. The first two packets give no report; the third gives one report, with latency
  20 and jitter 10, and the three sums are 0 afterwards.
\<close>

lemma sla_three_samples:
  "map_sum id snd (sla_samples (session_sla 3) [10, 20]) = Inr []"
  "map_sum id snd (sla_samples (session_sla 3) [10, 20, 30]) = Inr [Call_control_notify_sla 20 10]"
  "sla_lattency (fst (projr (sla_samples (session_sla 3) [10, 20, 30]))) = 0"
  "sla_jitter (fst (projr (sla_samples (session_sla 3) [10, 20, 30]))) = 0"
  "sla_old_lat (fst (projr (sla_samples (session_sla 3) [10, 20, 30]))) = 0"
  by (simp_all add: session_sla_def calloc_bfd_session_def ptm_bfd_send_sla_update_def Let_def
      c_div_def PKTS_TO_CONSIDER_FOR_PKT_LOSS_def)

text \<open>
  C9 at the input where the code departs from it: a session that tracks SLA with detect
  multiplier 1 receives its first packet, 10 ms after the last transmission. One packet
  is a multiple of the multiplier, so a report is due; the function divides the jitter
  sum by \<open>detect_mult - 1 = 0\<close> before it reaches \<open>control_notify_sla\<close>, and no report
  is made.
\<close>

theorem ptm_bfd_send_sla_update_detect_mult_1:
  "detect_mult (session_sla 1) = 1 \<and>
   BFD_CHECK_FLAG (flags (session_sla 1)) BFD_SESS_FLAG_TRACK_SLA \<and>
   unat (1 :: u32) mod unat (detect_mult (session_sla 1)) = 0 \<and>
   ptm_bfd_send_sla_update ((session_sla 1)\<lparr>stats_rx_ctrl_pkt := 1\<rparr>)
     \<lparr>tv_sec = 100, tv_usec = 10000\<rparr> = Inl DivideByZero \<and>
   sla_samples (session_sla 1) [10] = Inl DivideByZero"
  by (simp add: session_sla_def calloc_bfd_session_def ptm_bfd_send_sla_update_def Let_def
      c_div_def PKTS_TO_CONSIDER_FOR_PKT_LOSS_def flag_defs)

section \<open>Properties of session creation\<close>

lemma ptm_bfd_xmt_TO_keys:
  "my_discr (fst (ptm_bfd_xmt_TO e bs fbit)) = my_discr bs"
  "shop (fst (ptm_bfd_xmt_TO e bs fbit)) = shop bs"
  "mhop (fst (ptm_bfd_xmt_TO e bs fbit)) = mhop bs"
  by (simp_all add: ptm_bfd_xmt_TO_def ptm_bfd_start_xmt_timer_def Let_def timer_defs)

lemma sess_new_init_keys:
  "my_discr (sess_new_init sys bpc discr bfd) = discr"
  "shop (sess_new_init sys bpc discr bfd) = shop bfd"
  "mhop (sess_new_init sys bpc discr bfd) = mhop bfd"
  by (simp_all add: sess_new_init_def Let_def timer_defs)

lemma sess_new_key_keys:
  "my_discr (sess_new_key bpc bfd) = my_discr bfd"
  "\<not> bpc_mhop bpc \<Longrightarrow> shop_peer (shop (sess_new_key bpc bfd)) = bpc_peer bpc"
  "bpc_mhop bpc \<Longrightarrow> mhop_peer (mhop (sess_new_key bpc bfd)) = bpc_peer bpc"
  by (simp_all add: sess_new_key_def Let_def)

text \<open>
  What a creation leaves behind when the socket and the memory are there: the new
  session sits at the address \<open>calloc\<close> returned, with the discriminator of the request
  or the allocator's, and is linked in front of the discriminator table and of its peer
  table; every other session and table entry is as before.
\<close>

lemma ptm_bfd_sess_new_create_ok:
  assumes "sys_psock sys \<noteq> - 1" and "sys_calloc_session sys"
  shows "\<exists>st' B. ptm_bfd_sess_new_create sys st bpc = Inr (Some (sessions_next st), st') \<and>
           sessions st' (sessions_next st) = Some B \<and>
           (\<forall>p. p \<noteq> sessions_next st \<longrightarrow> sessions st' p = sessions st p) \<and>
           my_discr B = (if bpc_has_discr bpc then bpc_discr bpc else sessionID st) \<and>
           (\<not> bpc_mhop bpc \<longrightarrow> shop_peer (shop B) = bpc_peer bpc) \<and>
           (bpc_mhop bpc \<longrightarrow> mhop_peer (mhop B) = bpc_peer bpc) \<and>
           session_hash st' = sessions_next st # session_hash st \<and>
           peer_hash st' =
             (if bpc_mhop bpc then peer_hash st else sessions_next st # peer_hash st) \<and>
           local_peer_hash st' =
             (if bpc_mhop bpc then sessions_next st # local_peer_hash st
              else local_peer_hash st) \<and>
           sessions_next st' = Suc (sessions_next st)"
  using assms
  by (simp add: ptm_bfd_sess_new_create_def bfd_session_new_def Let_def case_prod_beta
      store_session_simps static_update_indices static_update_keys ptm_bfd_xmt_TO_keys
      sess_new_init_keys sess_new_key_keys HASH_ADD_def ptm_bfd_gen_ID_def)

lemma ptm_bfd_sess_new_creates:
  "ptm_bfd_sess_new_lookup st bpc = None \<Longrightarrow>
   ptm_bfd_sess_new sys st bpc = ptm_bfd_sess_new_create sys st bpc"
  by (simp add: ptm_bfd_sess_new_def)

text \<open>Single-hop lookups that find nothing.\<close>

lemma lookup_empty_shop:
  assumes "\<not> bpc_has_label bpc" and "\<not> bpc_mhop bpc" and "peer_hash st = []"
  shows "ptm_bfd_sess_new_lookup st bpc = None"
  using assms
  by (simp add: ptm_bfd_sess_new_lookup_def bfd_find_shop_def Let_def HASH_FIND_Nil)

lemma lookup_single_shop:
  assumes "\<not> bpc_has_label bpc" and "\<not> bpc_mhop bpc"
    and "peer_hash st = [p]" and "sessions st p = Some bs"
    and "sa_family (bpc_peer bpc) = AF_INET" and "sa_port (bpc_peer bpc) = 0"
    and "shop_peer (shop bs) \<noteq> bpc_peer bpc"
  shows "ptm_bfd_sess_new_lookup st bpc = None"
proof -
  have z: "(bpc_peer bpc)\<lparr>sa_port := 0\<rparr> = bpc_peer bpc"
    using assms(6) by (cases "bpc_peer bpc") simp
  have "shop bs \<noteq> \<lparr>shop_peer = bpc_peer bpc, shop_port_name = n\<rparr>" for n
    using assms(7) by auto
  then show ?thesis
    using assms(1-5)
    by (simp add: ptm_bfd_sess_new_lookup_def bfd_find_shop_def Let_def HASH_FIND_single z)
qed

lemma peers_differ: "peer_198_51_100_3 \<noteq> peer_198_51_100_2"
  by (simp add: peer_198_51_100_3_def peer_198_51_100_2_def)

lemma peer_198_51_100_3_simps:
  "sa_family peer_198_51_100_3 = AF_INET" "sa_port peer_198_51_100_3 = 0"
  by (simp_all add: peer_198_51_100_3_def)

lemma sys_example_ok: "sys_psock sys_example \<noteq> - 1" "sys_calloc_session sys_example"
  by (simp_all add: sys_example_def)

lemma bpc_A_simps:
  "\<not> bpc_has_label bpc_A" "\<not> bpc_mhop bpc_A" "bpc_has_discr bpc_A"
  "bpc_discr bpc_A = 0x12345678" "bpc_peer bpc_A = peer_198_51_100_2"
  by (simp_all add: bpc_A_def bpc_defaults_def)

lemma bpc_B_simps:
  "\<not> bpc_has_label bpc_B" "\<not> bpc_mhop bpc_B" "bpc_has_discr bpc_B"
  "bpc_discr bpc_B = 0x12345678" "bpc_peer bpc_B = peer_198_51_100_3"
  by (simp_all add: bpc_B_def bpc_defaults_def)

lemma bpc_discr_1_simps:
  "\<not> bpc_has_label bpc_discr_1" "\<not> bpc_mhop bpc_discr_1" "bpc_has_discr bpc_discr_1"
  "bpc_discr bpc_discr_1 = 1" "bpc_peer bpc_discr_1 = peer_198_51_100_3"
  by (simp_all add: bpc_discr_1_def bpc_defaults_def)

lemma bfdd_up_simps:
  "session_hash bfdd_up = [0]" "peer_hash bfdd_up = [0]" "sessions_next bfdd_up = 1"
  "local_peer_hash bfdd_up = []"
  by (simp_all add: bfdd_up_def bfdd_init_def)

lemma session_up_simps:
  "my_discr session_up = 1" "shop_peer (shop session_up) = peer_198_51_100_2"
  by (simp_all add: session_up_def)

lemma lookup_bfdd_up: "ptm_bfd_sess_new_lookup bfdd_up bpc_discr_1 = None"
  by (rule lookup_single_shop [OF _ _ bfdd_up_simps(2) sessions_bfdd_up])
     (simp_all add: bpc_discr_1_simps peer_198_51_100_3_simps session_up_simps
        peers_differ [symmetric])

text \<open>
  C3, as stated: of two create requests with the same caller-supplied discriminator and
  distinct peer keys the second fails. Starting from the empty daemon, the request for
  198.51.100.2 with discriminator 0x12345678 creates the session at address 0; the request
  for 198.51.100.3 with the same discriminator then does not fail: it returns the new
  session at address 1, and both sessions carry the discriminator.
\<close>

theorem ptm_bfd_sess_new_no_registry_conflict:
  "bpc_has_discr bpc_A \<and> bpc_has_discr bpc_B \<and> bpc_discr bpc_A = bpc_discr bpc_B \<and>
   bpc_peer bpc_A \<noteq> bpc_peer bpc_B \<and>
   \<not> isl create_A \<and> fst (projr create_A) = Some 0 \<and>
   \<not> isl create_B \<and> fst (projr create_B) = Some 1 \<and>
   map_option my_discr (sessions (snd (projr create_B)) 0) = Some 0x12345678 \<and>
   map_option my_discr (sessions (snd (projr create_B)) 1) = Some 0x12345678"
proof -
  have nA: "ptm_bfd_sess_new_lookup bfdd_init bpc_A = None"
    by (rule lookup_empty_shop) (simp_all add: bpc_A_simps bfdd_init_def)
  from ptm_bfd_sess_new_create_ok [OF sys_example_ok, of bfdd_init bpc_A]
  obtain stA A where
    cA: "ptm_bfd_sess_new_create sys_example bfdd_init bpc_A = Inr (Some 0, stA)"
    and A: "sessions stA 0 = Some A" "my_discr A = 0x12345678"
      "shop_peer (shop A) = peer_198_51_100_2"
    and iA: "peer_hash stA = [0]" "sessions_next stA = 1"
    by (auto simp: bpc_A_simps bfdd_init_def)
  have rA: "create_A = Inr (Some 0, stA)"
    by (simp add: create_A_def ptm_bfd_sess_new_creates [OF nA] cA)
  have nB: "ptm_bfd_sess_new_lookup stA bpc_B = None"
    by (rule lookup_single_shop [OF _ _ iA(1) A(1)])
       (simp_all add: bpc_B_simps peer_198_51_100_3_simps A(3) peers_differ [symmetric])
  from ptm_bfd_sess_new_create_ok [OF sys_example_ok, of stA bpc_B]
  obtain stB B where
    cB: "ptm_bfd_sess_new_create sys_example stA bpc_B = Inr (Some 1, stB)"
    and B: "sessions stB 1 = Some B" "my_discr B = 0x12345678"
    and oB: "\<forall>p. p \<noteq> 1 \<longrightarrow> sessions stB p = sessions stA p"
    by (auto simp: bpc_B_simps iA)
  have rB: "create_B = Inr (Some 1, stB)"
    by (simp add: create_B_def rA ptm_bfd_sess_new_creates [OF nB] cB)
  from oB have "sessions stB 0 = sessions stA 0" by simp
  with A B show ?thesis
    by (simp add: rA rB bpc_A_simps bpc_B_simps peers_differ [symmetric])
qed

text \<open>
  C3, amended: a create request that carries the discriminator of an existing session
  but names no existing session (its label and its peer key are found in no table) does
  not fail when a socket and memory are available. It returns a new session, at an
  address of its own, that carries the same discriminator; the new session is added to
  the discriminator table and to its peer table. The first session's record is
  unchanged, and so is every other session and every entry the tables had.
\<close>

theorem ptm_bfd_sess_new_same_discr_creates:
  assumes "sessions st a = Some A" and "my_discr A = bpc_discr bpc"
    and "a \<in> set (session_hash st)" and "a < sessions_next st"
    and "bpc_has_discr bpc"
    and "ptm_bfd_sess_new_lookup st bpc = None"
    and "sys_psock sys \<noteq> - 1" and "sys_calloc_session sys"
  shows "\<exists>b st' B. ptm_bfd_sess_new sys st bpc = Inr (Some b, st') \<and> b \<noteq> a \<and>
           sessions st' b = Some B \<and> my_discr B = my_discr A \<and>
           sessions st' a = Some A \<and>
           (\<forall>p. p \<noteq> b \<longrightarrow> sessions st' p = sessions st p) \<and>
           a \<in> set (session_hash st') \<and>
           session_hash st' = b # session_hash st \<and>
           peer_hash st' = (if bpc_mhop bpc then peer_hash st else b # peer_hash st) \<and>
           local_peer_hash st' =
             (if bpc_mhop bpc then b # local_peer_hash st else local_peer_hash st)"
proof -
  from ptm_bfd_sess_new_create_ok [OF assms(7,8), of st bpc]
  obtain st' B where
    c: "ptm_bfd_sess_new_create sys st bpc = Inr (Some (sessions_next st), st')"
    and B: "sessions st' (sessions_next st) = Some B" "my_discr B = bpc_discr bpc"
    and o: "\<forall>p. p \<noteq> sessions_next st \<longrightarrow> sessions st' p = sessions st p"
    and i: "session_hash st' = sessions_next st # session_hash st"
      "peer_hash st' = (if bpc_mhop bpc then peer_hash st else sessions_next st # peer_hash st)"
      "local_peer_hash st' =
         (if bpc_mhop bpc then sessions_next st # local_peer_hash st else local_peer_hash st)"
    using assms(5) by auto
  have ne: "sessions_next st \<noteq> a"
    using assms(4) by simp
  then have "sessions st' a = Some A"
    using o assms(1) by simp
  with c B o i ne assms(2,3) show ?thesis
    by (simp add: ptm_bfd_sess_new_creates [OF assms(6)])
qed

text \<open>
  The Up session with discriminator 1 and peer 198.51.100.2, and a request for
  198.51.100.3 with discriminator 1.
\<close>

theorem ptm_bfd_sess_new_same_discr_creates_witness:
  "sessions bfdd_up 0 = Some session_up \<and> my_discr session_up = bpc_discr bpc_discr_1 \<and>
   bpc_has_discr bpc_discr_1 \<and> ptm_bfd_sess_new_lookup bfdd_up bpc_discr_1 = None \<and>
   (\<exists>st' B. ptm_bfd_sess_new sys_example bfdd_up bpc_discr_1 = Inr (Some 1, st') \<and>
      sessions st' 1 = Some B \<and> my_discr B = 1 \<and> sessions st' 0 = Some session_up \<and>
      session_hash st' = [1, 0] \<and> peer_hash st' = [1, 0])"
proof -
  have h: "my_discr session_up = bpc_discr bpc_discr_1" "0 \<in> set (session_hash bfdd_up)"
    "0 < sessions_next bfdd_up"
    by (simp_all add: session_up_simps bpc_discr_1_simps bfdd_up_simps)
  from ptm_bfd_sess_new_same_discr_creates
         [OF sessions_bfdd_up h bpc_discr_1_simps(3) lookup_bfdd_up sys_example_ok]
  obtain b st' B where
    r: "ptm_bfd_sess_new sys_example bfdd_up bpc_discr_1 = Inr (Some b, st')"
    and f: "b \<noteq> 0" "sessions st' b = Some B" "my_discr B = my_discr session_up"
      "sessions st' 0 = Some session_up"
      "session_hash st' = b # session_hash bfdd_up"
      "peer_hash st' = (if bpc_mhop bpc_discr_1 then peer_hash bfdd_up else b # peer_hash bfdd_up)"
    by blast
  have c: "ptm_bfd_sess_new sys_example bfdd_up bpc_discr_1
             = ptm_bfd_sess_new_create sys_example bfdd_up bpc_discr_1"
    by (rule ptm_bfd_sess_new_creates [OF lookup_bfdd_up])
  from ptm_bfd_sess_new_create_ok [OF sys_example_ok, of bfdd_up bpc_discr_1] r c
  have "b = 1" by (auto simp: bfdd_up_simps)
  with r f show ?thesis
    by (simp add: sessions_bfdd_up h bpc_discr_1_simps lookup_bfdd_up bfdd_up_simps
        session_up_simps)
qed

end
